theory Spec2Isabelle
  imports Complex_Main
begin

section \<open>Values, strings and the library calls the services rely on\<close>

text \<open>
  The services are JavaScript modules on top of \<^verbatim>\<open>@solana/web3.js\<close>, \<^verbatim>\<open>@solana/spl-token\<close>
  and \<^verbatim>\<open>bs58\<close>. Conventions of this development:
  \<^item> a JavaScript number is the rational it denotes (\<^typ>\<open>rat\<close>) and its arithmetic
    rounds to the nearest double (\<open>fl\<close> below); a millisecond timestamp is an
    \<^typ>\<open>int\<close>; \<^verbatim>\<open>NaN\<close>, the infinities and the negative zero are outside the model, and
    \<^verbatim>\<open>Math.floor\<close> is \<^term>\<open>floor\<close>;
  \<^item> a string field that is absent (\<^verbatim>\<open>undefined\<close>) is written as the empty string and a
    numeric field that is absent as \<open>0\<close>: every test the code makes on such a field
    (\<^verbatim>\<open>!x\<close>, \<^verbatim>\<open>x || default\<close>) answers the same for both, and \<^verbatim>\<open>new PublicKey(x)\<close>
    throws for both (with another message);
  \<^item> a thrown \<^verbatim>\<open>Error\<close> is \<open>Inl\<close> of its message, a returned value is \<open>Inr\<close>;
  \<^item> an \<^verbatim>\<open>async\<close> function is the function of its awaited result.
\<close>

type_synonym error = string

subsection \<open>Double-precision arithmetic\<close>

text \<open>
  \<open>fl x\<close> is the double nearest to \<open>x\<close> (53 significant bits, ties to the even
  significand, gradual underflow; overflow to infinity is not modelled).
  \<open>binade k p q 0\<close> is the exponent \<open>e\<close> with \<open>2 ^ e \<le> p / q < 2 ^ (e + 1)\<close>, found in at most
  \<open>k\<close> steps; \<open>nearest_even p q\<close> is the integer nearest to \<open>p / q\<close>.
  The product \<^verbatim>\<open>a * b\<close> of the code is \<open>fl (a * b)\<close>, its quotient \<open>fl (a / b)\<close>, and
  \<^verbatim>\<open>Math.pow(10, d)\<close> is \<open>fl (10 ^ d)\<close>, which is \<open>10 ^ d\<close> itself up to \<open>d = 22\<close>.
\<close>

fun binade :: "nat \<Rightarrow> int \<Rightarrow> int \<Rightarrow> int \<Rightarrow> int" where
  "binade 0 p q e = e"
| "binade (Suc k) p q e =
     (if 2 * q \<le> p then binade k p (2 * q) (e + 1)
      else if p < q then binade k (2 * p) q (e - 1)
      else e)"

definition nearest_even :: "int \<Rightarrow> int \<Rightarrow> int" where
  "nearest_even p q =
     (if 2 * (p mod q) < q then p div q
      else if q < 2 * (p mod q) then p div q + 1
      else if even (p div q) then p div q else p div q + 1)"

definition fl_pos :: "int \<Rightarrow> int \<Rightarrow> rat" where
  "fl_pos p q =
     (let s = max (binade 1100 p q 0 - 52) (- 1074) in
      if 0 \<le> s then of_int (nearest_even p (q * 2 ^ nat s) * 2 ^ nat s)
      else of_int (nearest_even (p * 2 ^ nat (- s)) q) / of_int (2 ^ nat (- s)))"

definition fl :: "rat \<Rightarrow> rat" where
  "fl x =
     (case quotient_of x of
        (p, q) \<Rightarrow> if p = 0 then 0 else if 0 < p then fl_pos p q else - fl_pos (- p) q)"

definition Math_pow10 :: "nat \<Rightarrow> rat" where
  "Math_pow10 d = fl (10 ^ d)"

text \<open>The amount of a token instruction is an unsigned 64-bit field: \<open>u64 n\<close> is the
  amount it carries when \<open>n\<close> fits, and \<open>None\<close> when it does not (what is encoded then
  is not the number asked for, and is not modelled).\<close>

definition u64 :: "int \<Rightarrow> int option" where
  "u64 n = (if 0 \<le> n \<and> n < 2 ^ 64 then Some n else None)"

subsection \<open>Base58 text\<close>

text \<open>
  The alphabet is the one \<^verbatim>\<open>src/app.js\<close> spells out in \<^verbatim>\<open>generateSolanaAddress\<close>.
  \<^verbatim>\<open>bs58.decode\<close> throws on a character outside the alphabet; otherwise it returns one
  zero byte for every leading \<^verbatim>\<open>1\<close> followed by the big-endian bytes of the number
  the remaining digits spell. Only the length of the decoded buffer matters here.
\<close>

definition BASE58 :: string where
  "BASE58 = ''123456789ABCDEFGHJKLMNPQRSTUVWXYZabcdefghijkmnopqrstuvwxyz''"

fun index_of :: "char \<Rightarrow> string \<Rightarrow> int option" where
  "index_of c [] = None"
| "index_of c (x # xs) = (if c = x then Some 0 else map_option (\<lambda>i. i + 1) (index_of c xs))"

fun b58_number :: "int \<Rightarrow> string \<Rightarrow> int option" where
  "b58_number acc [] = Some acc"
| "b58_number acc (c # cs) =
     (case index_of c BASE58 of None \<Rightarrow> None | Some d \<Rightarrow> b58_number (acc * 58 + d) cs)"

text \<open>The number of base-256 digits of \<open>n\<close>; the first argument bounds the recursion
  (a number of \<open>k\<close> base-58 digits has at most \<open>k\<close> bytes).\<close>

fun byte_length :: "nat \<Rightarrow> int \<Rightarrow> nat" where
  "byte_length 0 n = 0"
| "byte_length (Suc k) n = (if n \<le> 0 then 0 else Suc (byte_length k (n div 256)))"

definition is_leader :: "char \<Rightarrow> bool" where
  "is_leader c = (c = CHR ''1'')"

definition bs58_decode :: "string \<Rightarrow> nat option" where
  "bs58_decode s =
     (case b58_number 0 (dropWhile is_leader s) of
        None \<Rightarrow> None
      | Some n \<Rightarrow> Some (length (takeWhile is_leader s) + byte_length (length s) n))"

subsection \<open>Keys and accounts\<close>

datatype account =
    Wallet string
  | KeypairPublicKey string
  | ATA account account

text \<open>
  \<^term>\<open>Wallet s\<close> is the \<^verbatim>\<open>PublicKey\<close> made from the base58 text \<open>s\<close>,
  \<^term>\<open>KeypairPublicKey k\<close> the public key of the keypair decoded from the secret \<open>k\<close>, and
  \<^term>\<open>ATA mint owner\<close> the associated token account of \<open>owner\<close> for \<open>mint\<close>.
  \<^verbatim>\<open>new PublicKey(text)\<close> throws unless the text is base58 and decodes to exactly 32
  bytes; \<^verbatim>\<open>new PublicKey(undefined)\<close> throws a \<^verbatim>\<open>TypeError\<close>;
  \<^verbatim>\<open>Keypair.fromSecretKey(bytes)\<close> throws unless it is given 64 bytes (its further check
  that the second half is the public key of the first is cryptography and not
  modelled: the secrets used below are real keypairs).
\<close>

definition PublicKey :: "string \<Rightarrow> error + account" where
  "PublicKey s =
     (case bs58_decode s of
        None \<Rightarrow> Inl ''Non-base58 character''
      | Some n \<Rightarrow> if n = 32 then Inr (Wallet s) else Inl ''Invalid public key input'')"

definition PublicKey_of :: "string option \<Rightarrow> error + account" where
  "PublicKey_of v =
     (case v of
        None \<Rightarrow> Inl ''Cannot read properties of undefined (reading '_bn')''
      | Some s \<Rightarrow> PublicKey s)"

definition Keypair_fromSecretKey :: "string \<Rightarrow> error + account" where
  "Keypair_fromSecretKey k =
     (if bs58_decode k = Some 64 then Inr (KeypairPublicKey k) else Inl ''bad secret key size'')"

definition upper_char :: "char \<Rightarrow> char" where
  "upper_char c =
     (let n = (of_char c :: int) in if 97 \<le> n \<and> n \<le> 122 then char_of (n - 32) else c)"

definition toUpperCase :: "string \<Rightarrow> string" where
  "toUpperCase s = map upper_char s"

fun split_comma :: "string \<Rightarrow> string list" where
  "split_comma [] = [[]]"
| "split_comma (c # cs) =
     (if c = CHR '','' then [] # split_comma cs
      else (case split_comma cs of [] \<Rightarrow> [[c]] | w # ws \<Rightarrow> (c # w) # ws))"

section \<open>Configuration\<close>

text \<open>The environment variables the modules read (\<^verbatim>\<open>process.env\<close>).\<close>

record env =
  CGT_MINT_ADDRESS :: string
  CGT_TREASURY_PUBLIC_KEY :: string
  CGT_TREASURY_PRIVATE_KEY :: string
  PAYMENT_RECEIVER_WALLET :: string
  ENV_CGT_DECIMALS :: nat
  ENV_ALLOWED_RECIPIENTS :: "string option"
  SOLANA_RPC_URL :: string
  SOLANA_RPC_PRIMARY :: string
  ENV_PRESALE_START :: int
  ENV_PRESALE_END :: int
  ENV_PORT :: nat

text \<open>The fields \<^verbatim>\<open>SERVER_CONFIG\<close> (secure API) and \<^verbatim>\<open>TOKEN_CONFIG\<close> (token service)
  have in common, then each of the two.\<close>

record treasury_config =
  CGT_MINT :: string
  TREASURY_PUBLIC_KEY :: string
  TREASURY_PRIVATE_KEY :: string

record server_config = treasury_config +
  PAYMENT_RECEIVER :: string
  CGT_DECIMALS :: nat
  MAX_TRANSFER_AMOUNT :: rat
  MIN_TRANSFER_AMOUNT :: rat
  ALLOWED_RECIPIENTS :: "string list"

definition SERVER_CONFIG :: "env \<Rightarrow> server_config" where
  "SERVER_CONFIG e =
     \<lparr> CGT_MINT = CGT_MINT_ADDRESS e,
       TREASURY_PUBLIC_KEY = CGT_TREASURY_PUBLIC_KEY e,
       TREASURY_PRIVATE_KEY = CGT_TREASURY_PRIVATE_KEY e,
       PAYMENT_RECEIVER = PAYMENT_RECEIVER_WALLET e,
       CGT_DECIMALS = (if ENV_CGT_DECIMALS e = 0 then 9 else ENV_CGT_DECIMALS e),
       MAX_TRANSFER_AMOUNT = 1000000,
       MIN_TRANSFER_AMOUNT = 1,
       ALLOWED_RECIPIENTS =
         (case ENV_ALLOWED_RECIPIENTS e of None \<Rightarrow> [] | Some s \<Rightarrow> split_comma s) \<rparr>"

text \<open>
  \<^verbatim>\<open>TOKEN_CONFIG\<close> of \<^verbatim>\<open>src/server/services/tokenService.js\<close>, with the fixed rates,
  mints and default presale window of that file; \<open>rpcUrl\<close> is the module constant
  beside it, the endpoint of the module's one \<^verbatim>\<open>connection\<close>. The module's default
  export is \<^verbatim>\<open>{isPresaleActive, calculateCgtAmount, ensureTokenAccount,
  transferCgtTokens, getCgtBalance, TOKEN_CONFIG}\<close> and nothing else.
\<close>

record token_config = treasury_config +
  DECIMALS :: nat
  SOL_TO_CGT_RATE :: rat
  USDT_TO_CGT_RATE :: rat
  USDC_TO_CGT_RATE :: rat
  USDT_MINT :: string
  USDC_MINT :: string
  PRESALE_START :: int
  PRESALE_END :: int
  rpcUrl :: string

definition TOKEN_CONFIG :: "env \<Rightarrow> token_config" where
  "TOKEN_CONFIG e =
     \<lparr> CGT_MINT = CGT_MINT_ADDRESS e,
       TREASURY_PUBLIC_KEY = CGT_TREASURY_PUBLIC_KEY e,
       TREASURY_PRIVATE_KEY = CGT_TREASURY_PRIVATE_KEY e,
       DECIMALS = 9,
       SOL_TO_CGT_RATE = 7500,
       USDT_TO_CGT_RATE = 50,
       USDC_TO_CGT_RATE = 50,
       USDT_MINT = ''Es9vMFrzaCERmJfrF4H2FYD4KCoNkY11McCe8BenwNYB'',
       USDC_MINT = ''EPjFWdd5AufqSSqeM2qN1xzybapC8G4wEGGkZwyTDt1v'',
       PRESALE_START = (if ENV_PRESALE_START e = 0 then 1750819200000 else ENV_PRESALE_START e),
       PRESALE_END = (if ENV_PRESALE_END e = 0 then 1756166400000 else ENV_PRESALE_END e),
       rpcUrl = SOLANA_RPC_URL e \<rparr>"

subsection \<open>Start-up validation (secure API)\<close>

definition required :: "(string \<times> (server_config \<Rightarrow> string)) list" where
  "required =
     [(''CGT_MINT'', CGT_MINT), (''TREASURY_PUBLIC_KEY'', TREASURY_PUBLIC_KEY),
      (''TREASURY_PRIVATE_KEY'', TREASURY_PRIVATE_KEY), (''PAYMENT_RECEIVER'', PAYMENT_RECEIVER)]"

fun check_required :: "(string \<times> (server_config \<Rightarrow> string)) list \<Rightarrow> server_config \<Rightarrow> error + unit" where
  "check_required [] cfg = Inr ()"
| "check_required ((key, field) # rest) cfg =
     (if field cfg = [] then Inl (''Missing required server configuration: '' @ key)
      else check_required rest cfg)"

definition validateServerConfig :: "server_config \<Rightarrow> error + unit" where
  "validateServerConfig cfg =
     (case check_required required cfg of
        Inl e \<Rightarrow> Inl e
      | Inr _ \<Rightarrow>
          (case bs58_decode (TREASURY_PRIVATE_KEY cfg) of
             None \<Rightarrow> Inl ''Invalid treasury private key format''
           | Some _ \<Rightarrow> Inr ()))"

definition getTreasuryKeypair :: "'a treasury_config_scheme \<Rightarrow> error + account" where
  "getTreasuryKeypair cfg =
     (case Keypair_fromSecretKey (TREASURY_PRIVATE_KEY cfg) of
        Inl _ \<Rightarrow> Inl ''Invalid treasury private key''
      | Inr kp \<Rightarrow> Inr kp)"

text \<open>The start-up sequence: validate, \<^verbatim>\<open>process.exit(1)\<close> on a throw, otherwise
  \<^verbatim>\<open>app.listen(PORT, '127.0.0.1')\<close> with \<^verbatim>\<open>PORT = process.env.PORT || 3001\<close>.\<close>

datatype process = Exited nat | Listening string nat

definition startup :: "env \<Rightarrow> process" where
  "startup e =
     (case validateServerConfig (SERVER_CONFIG e) of
        Inl _ \<Rightarrow> Exited 1
      | Inr _ \<Rightarrow> Listening ''127.0.0.1'' (if ENV_PORT e = 0 then 3001 else ENV_PORT e))"

section \<open>The ledger as the services see it\<close>

datatype instruction =
    SystemTransfer account account rat
  | CreateAssociatedTokenAccount account account account account
  | TokenTransfer account account account "int option"

text \<open>
  \<^term>\<open>SystemTransfer from to lamports\<close>,
  \<^term>\<open>CreateAssociatedTokenAccount payer ata owner mint\<close> and
  \<^term>\<open>TokenTransfer source destination owner amount\<close> are the three instructions the
  services build; the amount of a token transfer is what its 64-bit field carries
  (\<^const>\<open>u64\<close>). \<open>signers\<close> are the keypairs a transaction is sent with.
\<close>

record transaction =
  instructions :: "instruction list"
  recentBlockhash :: string
  feePayer :: "account option"
  signers :: "account list"

text \<open>\<^verbatim>\<open>transaction.serialize()\<close> with its default options requires the signature of
  every signer, the fee payer first; \<^verbatim>\<open>serialize({requireAllSignatures: false})\<close> does
  not. The serialised bytes are written as the transaction itself.\<close>

definition serialize :: "transaction \<Rightarrow> error + transaction" where
  "serialize tx =
     (case feePayer tx of
        None \<Rightarrow> Inl ''Transaction fee payer required''
      | Some p \<Rightarrow> if p \<in> set (signers tx) then Inr tx else Inl ''Signature verification failed'')"

text \<open>What a transaction that landed on the ledger really did (who paid what).\<close>

record payment =
  onchain_payer :: string
  onchain_asset :: string
  onchain_amount :: rat

text \<open>
  The world outside the server is a parameter: one function per RPC call, each taking
  the endpoint URL of the connection it is made on, with \<open>Inl\<close> for a call that throws.
  \<open>confirmTransaction\<close> answers \<^verbatim>\<open>value.err\<close> (\<open>None\<close> when the transaction executed
  without error); \<open>getAccount\<close> the amount held by a token account; \<open>getMint\<close> the
  decimals of a mint; \<open>sendTransaction\<close> the signature of the broadcast transaction.
  \<open>landed\<close> is what the ledger holds about a signature; no service reads it.
  \<open>onCurve\<close> is not an RPC call but a fact about an address the ledger library
  decides: whether its 32 bytes are a point of the ed25519 curve.
\<close>

record ledger =
  getLatestBlockhash :: "string \<Rightarrow> error + string"
  confirmTransaction :: "string \<Rightarrow> string \<Rightarrow> error + string option"
  getAccount :: "string \<Rightarrow> account \<Rightarrow> error + int"
  getAccountInfo :: "string \<Rightarrow> account \<Rightarrow> error + bool"
  getMint :: "string \<Rightarrow> account \<Rightarrow> error + nat"
  sendTransaction :: "string \<Rightarrow> transaction \<Rightarrow> error + string"
  landed :: "string \<Rightarrow> payment option"
  onCurve :: "string \<Rightarrow> bool"

text \<open>
  \<^verbatim>\<open>getAssociatedTokenAddress(mint, owner)\<close> derives the associated account and, with
  its default \<^verbatim>\<open>allowOwnerOffCurve = false\<close>, throws \<^verbatim>\<open>TokenOwnerOffCurveError\<close> (an error
  with an empty message) for an owner that is not a point of the curve. The public key of
  a keypair is one; a derived account never is.
\<close>

fun isOnCurve :: "ledger \<Rightarrow> account \<Rightarrow> bool" where
  "isOnCurve L (Wallet s) = onCurve L s"
| "isOnCurve L (KeypairPublicKey k) = True"
| "isOnCurve L (ATA mint owner) = False"

definition getAssociatedTokenAddress :: "ledger \<Rightarrow> account \<Rightarrow> account \<Rightarrow> error + account" where
  "getAssociatedTokenAddress L mint owner =
     (if isOnCurve L owner then Inr (ATA mint owner) else Inl [])"

text \<open>The state the server changes: the transactions it has broadcast, oldest first,
  each with the endpoint it went to.\<close>

type_synonym log = "(string \<times> transaction) list"

fun is_token_transfer :: "instruction \<Rightarrow> bool" where
  "is_token_transfer (TokenTransfer _ _ _ _) = True"
| "is_token_transfer _ = False"

definition disbursements :: "log \<Rightarrow> log" where
  "disbursements lg = filter (\<lambda>(ep, tx). list_ex is_token_transfer (instructions tx)) lg"

section \<open>Token service (\<^verbatim>\<open>src/server/services/tokenService.js\<close>)\<close>

definition isPresaleActive :: "token_config \<Rightarrow> int \<Rightarrow> bool" where
  "isPresaleActive cfg now = (now \<ge> PRESALE_START cfg \<and> now \<le> PRESALE_END cfg)"

definition calculateCgtAmount :: "token_config \<Rightarrow> rat \<Rightarrow> string \<Rightarrow> error + rat" where
  "calculateCgtAmount cfg amount tokenType =
     (if toUpperCase tokenType = ''SOL'' then Inr (fl (amount * SOL_TO_CGT_RATE cfg))
      else if toUpperCase tokenType = ''USDT'' then Inr (fl (amount * USDT_TO_CGT_RATE cfg))
      else if toUpperCase tokenType = ''USDC'' then Inr (fl (amount * USDT_TO_CGT_RATE cfg))
      else Inl ''Invalid token type'')"

definition create_account_tx :: "account \<Rightarrow> account \<Rightarrow> account \<Rightarrow> account \<Rightarrow> transaction" where
  "create_account_tx payer ata owner mint =
     \<lparr> instructions = [CreateAssociatedTokenAccount payer ata owner mint],
       recentBlockhash = [], feePayer = None, signers = [payer] \<rparr>"

text \<open>\<^verbatim>\<open>ensureTokenAccount\<close> returns \<^verbatim>\<open>{success, account, signature?}\<close>: the account
  and, when it had to create it, the signature of the creating transaction.\<close>

definition ensureTokenAccount ::
  "token_config \<Rightarrow> ledger \<Rightarrow> log \<Rightarrow> string \<Rightarrow> (error + account \<times> string option) \<times> log" where
  "ensureTokenAccount cfg L lg userWallet =
     (case PublicKey userWallet of
        Inl e \<Rightarrow> (Inl (''Failed to ensure token account: '' @ e), lg)
      | Inr userPublicKey \<Rightarrow>
     (case PublicKey (CGT_MINT cfg) of
        Inl e \<Rightarrow> (Inl (''Failed to ensure token account: '' @ e), lg)
      | Inr cgtMint \<Rightarrow>
     (case getAssociatedTokenAddress L cgtMint userPublicKey of
        Inl e \<Rightarrow> (Inl (''Failed to ensure token account: '' @ e), lg)
      | Inr userTokenAccount \<Rightarrow>
     (case getAccount L (rpcUrl cfg) userTokenAccount of
        Inr _ \<Rightarrow> (Inr (userTokenAccount, None), lg)
      | Inl _ \<Rightarrow>
     (case getTreasuryKeypair cfg of
        Inl e \<Rightarrow> (Inl (''Failed to ensure token account: '' @ e), lg)
      | Inr treasuryKeypair \<Rightarrow>
     (case sendTransaction L (rpcUrl cfg)
             (create_account_tx treasuryKeypair userTokenAccount userPublicKey cgtMint) of
        Inl e \<Rightarrow> (Inl (''Failed to ensure token account: '' @ e), lg)
      | Inr sig \<Rightarrow>
     (case confirmTransaction L (rpcUrl cfg) sig of
        Inl e \<Rightarrow>
          (Inl (''Failed to ensure token account: '' @ e),
           lg @ [(rpcUrl cfg,
                  create_account_tx treasuryKeypair userTokenAccount userPublicKey cgtMint)])
      | Inr _ \<Rightarrow>
          (Inr (userTokenAccount, Some sig),
           lg @ [(rpcUrl cfg,
                  create_account_tx treasuryKeypair userTokenAccount userPublicKey cgtMint)]))))))))"

definition transfer_tx :: "account \<Rightarrow> account \<Rightarrow> account \<Rightarrow> int \<Rightarrow> transaction" where
  "transfer_tx source destination owner tokenAmount =
     \<lparr> instructions = [TokenTransfer source destination owner (u64 tokenAmount)],
       recentBlockhash = [], feePayer = None, signers = [owner] \<rparr>"

datatype transfer_result =
  TransferResult (tr_signature: string) (tr_amount: rat) (tr_recipient: string)

text \<open>The transfer itself, once the presale check has passed (the \<^verbatim>\<open>try\<close> block of
  \<^verbatim>\<open>transferCgtTokens\<close>; its \<^verbatim>\<open>catch\<close> prefixes the message). The amount is
  \<^verbatim>\<open>Math.floor(cgtAmount * Math.pow(10, mintInfo.decimals))\<close>.\<close>

definition transfer_body ::
  "token_config \<Rightarrow> ledger \<Rightarrow> log \<Rightarrow> string \<Rightarrow> rat \<Rightarrow> (error + transfer_result) \<times> log" where
  "transfer_body cfg L lg userWallet cgtAmount =
     (case getTreasuryKeypair cfg of
        Inl e \<Rightarrow> (Inl e, lg)
      | Inr treasuryKeypair \<Rightarrow>
     (case PublicKey userWallet of
        Inl e \<Rightarrow> (Inl e, lg)
      | Inr userPublicKey \<Rightarrow>
     (case PublicKey (CGT_MINT cfg) of
        Inl e \<Rightarrow> (Inl e, lg)
      | Inr cgtMint \<Rightarrow>
     (case ensureTokenAccount cfg L lg userWallet of
        (Inl e, lg1) \<Rightarrow> (Inl e, lg1)
      | (Inr _, lg1) \<Rightarrow>
     (case getAssociatedTokenAddress L cgtMint treasuryKeypair of
        Inl e \<Rightarrow> (Inl e, lg1)
      | Inr treasuryTokenAccount \<Rightarrow>
     (case getAssociatedTokenAddress L cgtMint userPublicKey of
        Inl e \<Rightarrow> (Inl e, lg1)
      | Inr userTokenAccount \<Rightarrow>
     (case getMint L (rpcUrl cfg) cgtMint of
        Inl e \<Rightarrow> (Inl e, lg1)
      | Inr decimals \<Rightarrow>
     (case sendTransaction L (rpcUrl cfg)
             (transfer_tx treasuryTokenAccount userTokenAccount treasuryKeypair
                \<lfloor>fl (cgtAmount * Math_pow10 decimals)\<rfloor>) of
        Inl e \<Rightarrow> (Inl e, lg1)
      | Inr sig \<Rightarrow>
     (case confirmTransaction L (rpcUrl cfg) sig of
        Inl e \<Rightarrow>
          (Inl e,
           lg1 @ [(rpcUrl cfg, transfer_tx treasuryTokenAccount userTokenAccount treasuryKeypair
                    \<lfloor>fl (cgtAmount * Math_pow10 decimals)\<rfloor>)])
      | Inr _ \<Rightarrow>
          (Inr (TransferResult sig cgtAmount userWallet),
           lg1 @ [(rpcUrl cfg, transfer_tx treasuryTokenAccount userTokenAccount treasuryKeypair
                    \<lfloor>fl (cgtAmount * Math_pow10 decimals)\<rfloor>)]))))))))))"

definition transferCgtTokens ::
  "token_config \<Rightarrow> ledger \<Rightarrow> int \<Rightarrow> log \<Rightarrow> string \<Rightarrow> rat \<Rightarrow> (error + transfer_result) \<times> log" where
  "transferCgtTokens cfg L now lg userWallet cgtAmount =
     (if \<not> isPresaleActive cfg now then (Inl ''Presale is not active'', lg)
      else (case transfer_body cfg L lg userWallet cgtAmount of
              (Inl e, lg') \<Rightarrow> (Inl (''Failed to transfer CGT tokens: '' @ e), lg')
            | (Inr r, lg') \<Rightarrow> (Inr r, lg')))"

text \<open>\<^verbatim>\<open>getCgtBalance\<close>: the inner \<^verbatim>\<open>try\<close> turns every failure of \<^verbatim>\<open>getAccount\<close> or
  \<^verbatim>\<open>getMint\<close> into the balance 0; what is thrown before it reaches the outer
  \<^verbatim>\<open>catch\<close>. The balance is \<^verbatim>\<open>Number(amount) / Math.pow(10, decimals)\<close>.\<close>

definition getCgtBalance :: "token_config \<Rightarrow> ledger \<Rightarrow> string \<Rightarrow> error + rat" where
  "getCgtBalance cfg L walletAddress =
     (case PublicKey walletAddress of
        Inl e \<Rightarrow> Inl (''Failed to get CGT balance: '' @ e)
      | Inr publicKey \<Rightarrow>
     (case PublicKey (CGT_MINT cfg) of
        Inl e \<Rightarrow> Inl (''Failed to get CGT balance: '' @ e)
      | Inr cgtMint \<Rightarrow>
     (case getAssociatedTokenAddress L cgtMint publicKey of
        Inl e \<Rightarrow> Inl (''Failed to get CGT balance: '' @ e)
      | Inr tokenAccount \<Rightarrow>
     (case getAccount L (rpcUrl cfg) tokenAccount of
        Inl _ \<Rightarrow> Inr 0
      | Inr accountAmount \<Rightarrow>
     (case getMint L (rpcUrl cfg) cgtMint of
        Inl _ \<Rightarrow> Inr 0
      | Inr decimals \<Rightarrow> Inr (fl (fl (of_int accountAmount) / Math_pow10 decimals)))))))"

section \<open>Payment service\<close>

subsection \<open>Amount bounds (\<^verbatim>\<open>PAYMENT_CONFIG\<close>, \<^verbatim>\<open>validatePaymentAmount\<close>)\<close>

text \<open>The same constants and the same validator stand in
  \<^verbatim>\<open>src/server/services/paymentService.js\<close> and in \<^verbatim>\<open>src/unnamed/part_001\<close>.\<close>

definition MIN_SOL :: rat where "MIN_SOL = 5 / 100"
definition MIN_USDT :: rat where "MIN_USDT = 1"
definition MIN_USDC :: rat where "MIN_USDC = 1"
definition MAX_SOL :: rat where "MAX_SOL = 1000"
definition MAX_USDT :: rat where "MAX_USDT = 50000"
definition MAX_USDC :: rat where "MAX_USDC = 50000"

definition validatePaymentAmount :: "rat \<Rightarrow> string \<Rightarrow> error + bool" where
  "validatePaymentAmount numAmount tokenType =
     (if numAmount \<le> 0 then Inl ''Invalid payment amount''
      else if toUpperCase tokenType = ''SOL'' then
        (if numAmount < MIN_SOL \<or> numAmount > MAX_SOL
         then Inl ''SOL amount must be between 0.05 and 1000'' else Inr True)
      else if toUpperCase tokenType = ''USDT'' then
        (if numAmount < MIN_USDT \<or> numAmount > MAX_USDT
         then Inl ''USDT amount must be between 1 and 50000'' else Inr True)
      else if toUpperCase tokenType = ''USDC'' then
        (if numAmount < MIN_USDC \<or> numAmount > MAX_USDC
         then Inl ''USDC amount must be between 1 and 50000'' else Inr True)
      else Inl ''Invalid token type'')"

subsection \<open>\<^verbatim>\<open>src/unnamed/part_001\<close>: \<^verbatim>\<open>createPayment\<close> and \<^verbatim>\<open>verifyPayment\<close>\<close>

text \<open>
  This file reads three names that nothing in the repository provides:
  \<^item> \<^verbatim>\<open>tokenService.RPC_ENDPOINTS\<close>: the token service exports no such member (the
    variant kept in \<^verbatim>\<open>src/app.js\<close> declares the list but does not export it), so
    \<^verbatim>\<open>tokenService.RPC_ENDPOINTS[0]\<close> throws a \<^verbatim>\<open>TypeError\<close>;
  \<^item> \<^verbatim>\<open>tokenService.TOKEN_CONFIG.PAYMENT_RECEIVER\<close>: \<^verbatim>\<open>TOKEN_CONFIG\<close> of
    \<^verbatim>\<open>tokenService.js\<close> has no such field, so the value is \<^verbatim>\<open>undefined\<close>;
  \<^item> \<^verbatim>\<open>LAMPORTS_PER_SOL\<close>: never imported nor declared, so evaluating it throws a
    \<^verbatim>\<open>ReferenceError\<close>.
  They are written as absent values; the statements after them are translated as they
  stand.
\<close>

definition tokenService_RPC_ENDPOINTS :: "string list option" where
  "tokenService_RPC_ENDPOINTS = None"

definition TOKEN_CONFIG_PAYMENT_RECEIVER :: "string option" where
  "TOKEN_CONFIG_PAYMENT_RECEIVER = None"

definition LAMPORTS_PER_SOL :: "rat option" where
  "LAMPORTS_PER_SOL = None"

text \<open>\<^verbatim>\<open>new Connection(tokenService.RPC_ENDPOINTS[0], 'confirmed')\<close>, the first statement
  of \<^verbatim>\<open>createSolPayment\<close>, \<^verbatim>\<open>createSplTokenPayment\<close> and \<^verbatim>\<open>verifyPayment\<close>; the
  connection is named by its endpoint.\<close>

definition new_Connection :: "error + string" where
  "new_Connection =
     (case tokenService_RPC_ENDPOINTS of
        None \<Rightarrow> Inl ''Cannot read properties of undefined (reading '0')''
      | Some [] \<Rightarrow> Inl ''Endpoint URL must start with `http:` or `https:`.''
      | Some (endpoint # _) \<Rightarrow> Inr endpoint)"

definition getTokenMint :: "token_config \<Rightarrow> string \<Rightarrow> error + account" where
  "getTokenMint cfg tokenType =
     (if toUpperCase tokenType = ''USDT'' then PublicKey (USDT_MINT cfg)
      else if toUpperCase tokenType = ''USDC'' then PublicKey (USDC_MINT cfg)
      else Inl ''Invalid token type'')"

definition createSolPayment ::
  "ledger \<Rightarrow> account \<Rightarrow> account \<Rightarrow> rat \<Rightarrow> error + transaction" where
  "createSolPayment L fromPubkey toPubkey amount =
     (case new_Connection of
        Inl e \<Rightarrow> Inl e
      | Inr connection \<Rightarrow>
     (case LAMPORTS_PER_SOL of
        None \<Rightarrow> Inl ''LAMPORTS_PER_SOL is not defined''
      | Some lamportsPerSol \<Rightarrow>
     (case getLatestBlockhash L connection of
        Inl e \<Rightarrow> Inl e
      | Inr blockhash \<Rightarrow>
          Inr \<lparr> instructions = [SystemTransfer fromPubkey toPubkey (fl (amount * lamportsPerSol))],
                recentBlockhash = blockhash, feePayer = Some fromPubkey, signers = [] \<rparr>)))"

definition createSplTokenPayment ::
  "token_config \<Rightarrow> ledger \<Rightarrow> account \<Rightarrow> account \<Rightarrow> rat \<Rightarrow> string \<Rightarrow> error + transaction" where
  "createSplTokenPayment cfg L fromPubkey toPubkey amount tokenType =
     (case new_Connection of
        Inl e \<Rightarrow> Inl e
      | Inr connection \<Rightarrow>
     (case getTokenMint cfg tokenType of
        Inl e \<Rightarrow> Inl e
      | Inr tokenMint \<Rightarrow>
     (case getAssociatedTokenAddress L tokenMint fromPubkey of
        Inl e \<Rightarrow> Inl e
      | Inr fromTokenAccount \<Rightarrow>
     (case getAssociatedTokenAddress L tokenMint toPubkey of
        Inl e \<Rightarrow> Inl e
      | Inr toTokenAccount \<Rightarrow>
     (case getLatestBlockhash L connection of
        Inl e \<Rightarrow> Inl e
      | Inr blockhash \<Rightarrow>
          Inr \<lparr> instructions =
                  (case getAccountInfo L connection toTokenAccount of
                     Inl _ \<Rightarrow>
                       [CreateAssociatedTokenAccount fromPubkey toTokenAccount toPubkey tokenMint]
                   | Inr _ \<Rightarrow> [])
                  @ [TokenTransfer fromTokenAccount toTokenAccount fromPubkey
                       (u64 \<lfloor>fl (amount * Math_pow10 6)\<rfloor>)],
                recentBlockhash = blockhash, feePayer = Some fromPubkey, signers = [] \<rparr>)))))"

datatype payment_data =
  PaymentData (pd_transaction: transaction) (pd_cgtAmount: rat) (pd_paymentAmount: rat)
    (pd_paymentToken: string)

text \<open>The \<^verbatim>\<open>try\<close> block of \<^verbatim>\<open>createPayment\<close>; the \<^verbatim>\<open>catch\<close> prefixes the message.
  The transaction is serialised with \<^verbatim>\<open>transaction.serialize()\<close>.\<close>

definition createPayment_body ::
  "token_config \<Rightarrow> ledger \<Rightarrow> int \<Rightarrow> string \<Rightarrow> rat \<Rightarrow> string \<Rightarrow> error + payment_data" where
  "createPayment_body cfg L now wallet amount tokenType =
     (if \<not> isPresaleActive cfg now then Inl ''Presale is not active''
      else
     (case PublicKey wallet of
        Inl e \<Rightarrow> Inl e
      | Inr userPublicKey \<Rightarrow>
     (case PublicKey_of TOKEN_CONFIG_PAYMENT_RECEIVER of
        Inl e \<Rightarrow> Inl e
      | Inr receiverPublicKey \<Rightarrow>
     (case calculateCgtAmount cfg amount tokenType of
        Inl e \<Rightarrow> Inl e
      | Inr cgtAmount \<Rightarrow>
     (case (if toUpperCase tokenType = ''SOL''
            then createSolPayment L userPublicKey receiverPublicKey amount
            else createSplTokenPayment cfg L userPublicKey receiverPublicKey amount tokenType) of
        Inl e \<Rightarrow> Inl e
      | Inr tx \<Rightarrow>
     (case serialize tx of
        Inl e \<Rightarrow> Inl e
      | Inr serializedTransaction \<Rightarrow>
          Inr (PaymentData serializedTransaction cgtAmount amount tokenType)))))))"

definition createPayment ::
  "token_config \<Rightarrow> ledger \<Rightarrow> int \<Rightarrow> string \<Rightarrow> rat \<Rightarrow> string \<Rightarrow> error + payment_data" where
  "createPayment cfg L now wallet amount tokenType =
     (case createPayment_body cfg L now wallet amount tokenType of
        Inl e \<Rightarrow> Inl (''Failed to create payment: '' @ e)
      | Inr p \<Rightarrow> Inr p)"

datatype verify_result =
  VerifyResult (vr_success: bool) (vr_signature: string) (vr_cgtAmount: rat)
    (vr_recipient: string)

text \<open>\<^verbatim>\<open>verifyPayment\<close>: what follows the opening of the connection, the \<^verbatim>\<open>try\<close> block
  as a whole, and the function with its \<^verbatim>\<open>catch\<close>.\<close>

definition verifyPayment_confirmed ::
  "token_config \<Rightarrow> ledger \<Rightarrow> string \<Rightarrow> int \<Rightarrow> log \<Rightarrow> string \<Rightarrow> string \<Rightarrow> rat \<Rightarrow> string
     \<Rightarrow> (error + verify_result) \<times> log" where
  "verifyPayment_confirmed cfg L connection now lg signature wallet amount tokenType =
     (case confirmTransaction L connection signature of
        Inl e \<Rightarrow> (Inl e, lg)
      | Inr (Some err) \<Rightarrow> (Inl ''Transaction verification failed'', lg)
      | Inr None \<Rightarrow>
     (case calculateCgtAmount cfg amount tokenType of
        Inl e \<Rightarrow> (Inl e, lg)
      | Inr cgtAmount \<Rightarrow>
     (case transferCgtTokens cfg L now lg wallet cgtAmount of
        (Inl e, lg') \<Rightarrow> (Inl e, lg')
      | (Inr transferResult, lg') \<Rightarrow>
          (Inr (VerifyResult True (tr_signature transferResult) cgtAmount wallet), lg'))))"

definition verifyPayment_body ::
  "token_config \<Rightarrow> ledger \<Rightarrow> int \<Rightarrow> log \<Rightarrow> string \<Rightarrow> string \<Rightarrow> rat \<Rightarrow> string
     \<Rightarrow> (error + verify_result) \<times> log" where
  "verifyPayment_body cfg L now lg signature wallet amount tokenType =
     (case new_Connection of
        Inl e \<Rightarrow> (Inl e, lg)
      | Inr connection \<Rightarrow>
          verifyPayment_confirmed cfg L connection now lg signature wallet amount tokenType)"

definition verifyPayment ::
  "token_config \<Rightarrow> ledger \<Rightarrow> int \<Rightarrow> log \<Rightarrow> string \<Rightarrow> string \<Rightarrow> rat \<Rightarrow> string
     \<Rightarrow> (error + verify_result) \<times> log" where
  "verifyPayment cfg L now lg signature wallet amount tokenType =
     (case verifyPayment_body cfg L now lg signature wallet amount tokenType of
        (Inl e, lg') \<Rightarrow> (Inl (''Payment verification failed: '' @ e), lg')
      | (Inr r, lg') \<Rightarrow> (Inr r, lg'))"

subsection \<open>\<^verbatim>\<open>src/server/services/paymentService.js\<close>: the validating builders\<close>

text \<open>
  This file's builders take the wallet text, validate the amount first and use the
  module's own connection (\<^verbatim>\<open>SOLANA_RPC_URL\<close>); \<^verbatim>\<open>PAYMENT_CONFIG.RECEIVER_WALLET\<close> is
  the \<^verbatim>\<open>PAYMENT_RECEIVER_WALLET\<close> of the environment and its two mints are the two of
  \<^verbatim>\<open>TOKEN_CONFIG\<close>. They serialise with \<^verbatim>\<open>requireAllSignatures: false\<close> and return
  \<^verbatim>\<open>{transaction, expectedCgt}\<close>.
\<close>

definition ps_createSolPayment ::
  "env \<Rightarrow> ledger \<Rightarrow> string \<Rightarrow> rat \<Rightarrow> error + transaction \<times> rat" where
  "ps_createSolPayment e L fromWallet solAmount =
     (case validatePaymentAmount solAmount ''SOL'' of
        Inl err \<Rightarrow> Inl (''Failed to create SOL payment: '' @ err)
      | Inr _ \<Rightarrow>
     (case PublicKey fromWallet of
        Inl err \<Rightarrow> Inl (''Failed to create SOL payment: '' @ err)
      | Inr fromPublicKey \<Rightarrow>
     (case PublicKey (PAYMENT_RECEIVER_WALLET e) of
        Inl err \<Rightarrow> Inl (''Failed to create SOL payment: '' @ err)
      | Inr toPublicKey \<Rightarrow>
     (case getLatestBlockhash L (SOLANA_RPC_URL e) of
        Inl err \<Rightarrow> Inl (''Failed to create SOL payment: '' @ err)
      | Inr blockhash \<Rightarrow>
     (case calculateCgtAmount (TOKEN_CONFIG e) solAmount ''SOL'' of
        Inl err \<Rightarrow> Inl (''Failed to create SOL payment: '' @ err)
      | Inr expectedCgt \<Rightarrow>
          Inr (\<lparr> instructions =
                   [SystemTransfer fromPublicKey toPublicKey
                      (of_int \<lfloor>fl (solAmount * 1000000000)\<rfloor>)],
                 recentBlockhash = blockhash, feePayer = Some fromPublicKey, signers = [] \<rparr>,
               expectedCgt))))))"

definition ps_createSplTokenPayment ::
  "env \<Rightarrow> ledger \<Rightarrow> string \<Rightarrow> rat \<Rightarrow> string \<Rightarrow> error + transaction \<times> rat" where
  "ps_createSplTokenPayment e L fromWallet amount tokenType =
     (case validatePaymentAmount amount tokenType of
        Inl err \<Rightarrow> Inl (''Failed to create '' @ tokenType @ '' payment: '' @ err)
      | Inr _ \<Rightarrow>
     (case PublicKey fromWallet of
        Inl err \<Rightarrow> Inl (''Failed to create '' @ tokenType @ '' payment: '' @ err)
      | Inr fromPublicKey \<Rightarrow>
     (case PublicKey (PAYMENT_RECEIVER_WALLET e) of
        Inl err \<Rightarrow> Inl (''Failed to create '' @ tokenType @ '' payment: '' @ err)
      | Inr toPublicKey \<Rightarrow>
     (case PublicKey (if tokenType = ''USDT'' then USDT_MINT (TOKEN_CONFIG e)
                      else USDC_MINT (TOKEN_CONFIG e)) of
        Inl err \<Rightarrow> Inl (''Failed to create '' @ tokenType @ '' payment: '' @ err)
      | Inr mint \<Rightarrow>
     (case getAssociatedTokenAddress L mint fromPublicKey of
        Inl err \<Rightarrow> Inl (''Failed to create '' @ tokenType @ '' payment: '' @ err)
      | Inr fromTokenAccount \<Rightarrow>
     (case getAssociatedTokenAddress L mint toPublicKey of
        Inl err \<Rightarrow> Inl (''Failed to create '' @ tokenType @ '' payment: '' @ err)
      | Inr toTokenAccount \<Rightarrow>
     (case getLatestBlockhash L (SOLANA_RPC_URL e) of
        Inl err \<Rightarrow> Inl (''Failed to create '' @ tokenType @ '' payment: '' @ err)
      | Inr blockhash \<Rightarrow>
     (case calculateCgtAmount (TOKEN_CONFIG e) amount tokenType of
        Inl err \<Rightarrow> Inl (''Failed to create '' @ tokenType @ '' payment: '' @ err)
      | Inr expectedCgt \<Rightarrow>
          Inr (\<lparr> instructions =
                   [TokenTransfer fromTokenAccount toTokenAccount fromPublicKey
                      (u64 \<lfloor>fl (amount * 1000000)\<rfloor>)],
                 recentBlockhash = blockhash, feePayer = Some fromPublicKey, signers = [] \<rparr>,
               expectedCgt)))))))))"

definition verifyTransaction :: "env \<Rightarrow> ledger \<Rightarrow> string \<Rightarrow> error + bool" where
  "verifyTransaction e L signature =
     (case confirmTransaction L (SOLANA_RPC_URL e) signature of
        Inl err \<Rightarrow> Inl (''Transaction verification failed: '' @ err)
      | Inr (Some _) \<Rightarrow> Inl ''Transaction verification failed: Transaction failed''
      | Inr None \<Rightarrow> Inr True)"

section \<open>Secure API (the Express module kept in \<^verbatim>\<open>src/server/services/paymentService.js\<close>)\<close>

definition SERVER_RPC_ENDPOINTS :: "env \<Rightarrow> string list" where
  "SERVER_RPC_ENDPOINTS e =
     [if SOLANA_RPC_PRIMARY e = [] then ''https://api.mainnet-beta.solana.com''
      else SOLANA_RPC_PRIMARY e,
      ''https://rpc.ankr.com/solana'']"

text \<open>\<^verbatim>\<open>getSecureConnection\<close>: the \<^verbatim>\<open>for\<close> loop over the endpoints, probing each with
  \<^verbatim>\<open>getLatestBlockhash\<close>; the connection is named by its endpoint.\<close>

fun getSecureConnection :: "ledger \<Rightarrow> string list \<Rightarrow> error + string" where
  "getSecureConnection L [] = Inl ''All RPC endpoints failed''"
| "getSecureConnection L (endpoint # rest) =
     (case getLatestBlockhash L endpoint of
        Inr _ \<Rightarrow> Inr endpoint
      | Inl _ \<Rightarrow> getSecureConnection L rest)"

definition isValidSolanaAddress :: "string \<Rightarrow> bool" where
  "isValidSolanaAddress address = (case PublicKey address of Inr _ \<Rightarrow> True | Inl _ \<Rightarrow> False)"

text \<open>The JSON bodies the handlers answer with.\<close>

datatype body =
    Failure string
  | ErrorBody string
  | TransferOk string rat string int
  | Balance rat
  | Payment payment_data
  | Verified verify_result

text \<open>
  \<^term>\<open>Failure msg\<close> is \<^verbatim>\<open>{success: false, error: msg}\<close>, \<^term>\<open>ErrorBody msg\<close> is
  \<^verbatim>\<open>{error: msg}\<close>, \<^term>\<open>TransferOk signature amount recipient timestamp\<close> is the
  \<^verbatim>\<open>success: true\<close> answer of a treasury transfer, \<^term>\<open>Balance b\<close> is \<^verbatim>\<open>{balance: b}\<close>.
\<close>

record response =
  status :: nat
  body :: body

text \<open>\<^verbatim>\<open>sendAndConfirmTransaction\<close> broadcasts, waits, and throws when the transaction
  did not execute.\<close>

definition sendAndConfirmTransaction ::
  "ledger \<Rightarrow> string \<Rightarrow> log \<Rightarrow> transaction \<Rightarrow> (error + string) \<times> log" where
  "sendAndConfirmTransaction L endpoint lg tx =
     (case sendTransaction L endpoint tx of
        Inl e \<Rightarrow> (Inl e, lg)
      | Inr sig \<Rightarrow>
     (case confirmTransaction L endpoint sig of
        Inl e \<Rightarrow> (Inl e, lg @ [(endpoint, tx)])
      | Inr (Some err) \<Rightarrow> (Inl (''Transaction failed: '' @ err), lg @ [(endpoint, tx)])
      | Inr None \<Rightarrow> (Inr sig, lg @ [(endpoint, tx)])))"

definition secure_transfer_tx ::
  "ledger \<Rightarrow> string \<Rightarrow> account \<Rightarrow> account \<Rightarrow> account \<Rightarrow> account \<Rightarrow> account \<Rightarrow> int
     \<Rightarrow> transaction" where
  "secure_transfer_tx L endpoint treasuryKeypair recipientPublicKey cgtMint treasuryTokenAccount
       recipientTokenAccount transferAmount =
     \<lparr> instructions =
         (case getAccount L endpoint recipientTokenAccount of
            Inr _ \<Rightarrow> []
          | Inl _ \<Rightarrow>
              [CreateAssociatedTokenAccount treasuryKeypair recipientTokenAccount
                 recipientPublicKey cgtMint])
         @ [TokenTransfer treasuryTokenAccount recipientTokenAccount treasuryKeypair
              (u64 transferAmount)],
       recentBlockhash = [], feePayer = None, signers = [treasuryKeypair] \<rparr>"

text \<open>The \<^verbatim>\<open>try\<close> block of \<^verbatim>\<open>executeSecureCgtTransfer\<close>, then the function with its
  \<^verbatim>\<open>catch\<close>. \<open>endpoints\<close> is \<^verbatim>\<open>RPC_ENDPOINTS\<close>; the amount is
  \<^verbatim>\<open>Math.floor(cgtAmount * Math.pow(10, actualDecimals))\<close>.\<close>

definition executeSecureCgtTransfer_body ::
  "server_config \<Rightarrow> ledger \<Rightarrow> string list \<Rightarrow> int \<Rightarrow> log \<Rightarrow> string \<Rightarrow> rat
     \<Rightarrow> (error + body) \<times> log" where
  "executeSecureCgtTransfer_body cfg L endpoints now lg recipientWallet cgtAmount =
     (case getSecureConnection L endpoints of
        Inl e \<Rightarrow> (Inl e, lg)
      | Inr secureConnection \<Rightarrow>
     (case getTreasuryKeypair cfg of
        Inl e \<Rightarrow> (Inl e, lg)
      | Inr treasuryKeypair \<Rightarrow>
     (case PublicKey recipientWallet of
        Inl e \<Rightarrow> (Inl e, lg)
      | Inr recipientPublicKey \<Rightarrow>
     (case PublicKey (CGT_MINT cfg) of
        Inl e \<Rightarrow> (Inl e, lg)
      | Inr cgtMint \<Rightarrow>
     (case getMint L secureConnection cgtMint of
        Inl e \<Rightarrow> (Inl e, lg)
      | Inr actualDecimals \<Rightarrow>
     (case getAssociatedTokenAddress L cgtMint treasuryKeypair of
        Inl e \<Rightarrow> (Inl e, lg)
      | Inr treasuryTokenAccount \<Rightarrow>
     (case getAssociatedTokenAddress L cgtMint recipientPublicKey of
        Inl e \<Rightarrow> (Inl e, lg)
      | Inr recipientTokenAccount \<Rightarrow>
     (case sendAndConfirmTransaction L secureConnection lg
             (secure_transfer_tx L secureConnection treasuryKeypair recipientPublicKey cgtMint
                treasuryTokenAccount recipientTokenAccount
                \<lfloor>fl (cgtAmount * Math_pow10 actualDecimals)\<rfloor>) of
        (Inl e, lg') \<Rightarrow> (Inl e, lg')
      | (Inr sig, lg') \<Rightarrow> (Inr (TransferOk sig cgtAmount recipientWallet now), lg')))))))))"

definition executeSecureCgtTransfer ::
  "server_config \<Rightarrow> ledger \<Rightarrow> string list \<Rightarrow> int \<Rightarrow> log \<Rightarrow> string \<Rightarrow> rat \<Rightarrow> body \<times> log" where
  "executeSecureCgtTransfer cfg L endpoints now lg recipientWallet cgtAmount =
     (case executeSecureCgtTransfer_body cfg L endpoints now lg recipientWallet cgtAmount of
        (Inl _, lg') \<Rightarrow> (Failure ''Transfer execution failed'', lg')
      | (Inr b, lg') \<Rightarrow> (b, lg'))"

subsection \<open>\<^verbatim>\<open>POST /api/transfer-cgt\<close>\<close>

record transfer_request =
  req_recipientWallet :: string
  req_amount :: rat
  req_timestamp :: int

definition transfer_cgt ::
  "server_config \<Rightarrow> ledger \<Rightarrow> string list \<Rightarrow> int \<Rightarrow> log \<Rightarrow> transfer_request
     \<Rightarrow> response \<times> log" where
  "transfer_cgt cfg L endpoints now lg req =
     (if req_recipientWallet req = [] \<or> req_amount req = 0 \<or> req_timestamp req = 0 then
        (\<lparr> status = 400, body = Failure ''Missing required parameters'' \<rparr>, lg)
      else if \<not> isValidSolanaAddress (req_recipientWallet req) then
        (\<lparr> status = 400, body = Failure ''Invalid wallet address'' \<rparr>, lg)
      else if req_amount req < MIN_TRANSFER_AMOUNT cfg \<or> req_amount req > MAX_TRANSFER_AMOUNT cfg then
        (\<lparr> status = 400, body = Failure ''Invalid transfer amount'' \<rparr>, lg)
      else if \<bar>now - req_timestamp req\<bar> > 300000 then
        (\<lparr> status = 400, body = Failure ''Request expired'' \<rparr>, lg)
      else if ALLOWED_RECIPIENTS cfg \<noteq> [] \<and> req_recipientWallet req \<notin> set (ALLOWED_RECIPIENTS cfg) then
        (\<lparr> status = 403, body = Failure ''Recipient not authorized'' \<rparr>, lg)
      else
        (case executeSecureCgtTransfer cfg L endpoints now lg (req_recipientWallet req) (req_amount req) of
           (result, lg') \<Rightarrow> (\<lparr> status = 200, body = result \<rparr>, lg')))"

subsection \<open>\<^verbatim>\<open>GET /api/balance/:wallet\<close>, \<^verbatim>\<open>POST /api/payment/create\<close>,
  \<^verbatim>\<open>POST /api/payment/verify\<close>\<close>

definition balance_route :: "token_config \<Rightarrow> ledger \<Rightarrow> string \<Rightarrow> response" where
  "balance_route cfg L wallet =
     (if wallet = [] then \<lparr> status = 400, body = ErrorBody ''Wallet address is required'' \<rparr>
      else (case getCgtBalance cfg L wallet of
              Inl _ \<Rightarrow> \<lparr> status = 500, body = ErrorBody ''Failed to get balance'' \<rparr>
            | Inr balance \<Rightarrow> \<lparr> status = 200, body = Balance balance \<rparr>))"

text \<open>The body of the two payment routes. The handlers destructure
  \<^verbatim>\<open>{wallet, amount, tokenType}\<close> and \<^verbatim>\<open>{signature, wallet, amount, tokenType}\<close>;
  \<open>body_cgtAmount\<close> stands for a reward figure the client may send along (the
  \<^verbatim>\<open>cgtAmount\<close> it was quoted), which no handler reads.\<close>

record payment_request =
  body_signature :: string
  body_wallet :: string
  body_amount :: rat
  body_tokenType :: string
  body_cgtAmount :: rat

definition payment_create ::
  "token_config \<Rightarrow> ledger \<Rightarrow> int \<Rightarrow> payment_request \<Rightarrow> response" where
  "payment_create cfg L now req =
     (if body_wallet req = [] \<or> body_amount req = 0 \<or> body_tokenType req = [] then
        \<lparr> status = 400, body = ErrorBody ''Missing required parameters'' \<rparr>
      else (case createPayment cfg L now (body_wallet req) (body_amount req) (body_tokenType req) of
              Inl _ \<Rightarrow> \<lparr> status = 500, body = ErrorBody ''Failed to create payment'' \<rparr>
            | Inr paymentData \<Rightarrow> \<lparr> status = 200, body = Payment paymentData \<rparr>))"

definition payment_verify ::
  "token_config \<Rightarrow> ledger \<Rightarrow> int \<Rightarrow> log \<Rightarrow> payment_request \<Rightarrow> response \<times> log" where
  "payment_verify cfg L now lg req =
     (if body_signature req = [] \<or> body_wallet req = [] \<or> body_amount req = 0
         \<or> body_tokenType req = [] then
        (\<lparr> status = 400, body = ErrorBody ''Missing required parameters'' \<rparr>, lg)
      else (case verifyPayment cfg L now lg (body_signature req) (body_wallet req)
                   (body_amount req) (body_tokenType req) of
              (Inl _, lg') \<Rightarrow> (\<lparr> status = 500, body = ErrorBody ''Failed to verify payment'' \<rparr>, lg')
            | (Inr verificationResult, lg') \<Rightarrow>
                (\<lparr> status = 200, body = Verified verificationResult \<rparr>, lg')))"

section \<open>What the server has sent, and example deployments\<close>

text \<open>The amount carried by every token transfer instruction in a log, in order, and
  what it is to be a double.\<close>

fun instr_amount :: "instruction \<Rightarrow> int option list" where
  "instr_amount (TokenTransfer _ _ _ a) = [a]"
| "instr_amount _ = []"

definition base_units_sent :: "log \<Rightarrow> int option list" where
  "base_units_sent lg = concat (map (\<lambda>(ep, tx). concat (map instr_amount (instructions tx))) lg)"

definition is_double :: "rat \<Rightarrow> bool" where
  "is_double x = (fl x = x)"

text \<open>
  A deployment with every required value set. The treasury secret is the keypair of the
  all-zero seed (32 zero bytes followed by its public key), the mint and the receiver
  are the defaults of the token service kept in \<^verbatim>\<open>src/app.js\<close>, the presale window is
  the default one. The ledger answers every call, reports every signature confirmed
  without error and a mint of 6 decimals (the configuration says 9); the transaction
  behind the signature \<^verbatim>\<open>paid\<close> was a payment of 1 USDT by \<open>wallet_B\<close>. On the
  addresses used here \<open>onCurve\<close> answers as the curve does: \<open>wallet_A\<close> and
  \<open>wallet_B\<close> are points of it, \<open>wallet_off\<close> is well formed and is not.
\<close>

definition wallet_A :: string where
  "wallet_A = ''11111111111111111111111111111111''"

definition wallet_B :: string where
  "wallet_B = ''4DZPTePbiBvkEWPgbUM53LszBCEobGxEaFga43gQHNdz''"

definition wallet_off :: string where
  "wallet_off = ''11111111111111111111111111111112''"

definition treasury_secret :: string where
  "treasury_secret =
     ''11111111111111111111111111111111'' @ ''4zvwRjXUKGfvwnParsHAS3HuSVzV5cA4McphgmoCtajS''"

definition env_ok :: env where
  "env_ok =
     \<lparr> CGT_MINT_ADDRESS = ''HThCz865FsMBh59ECT2Tyyij2WoRpfEXLJkvxjJSmnsE'',
       CGT_TREASURY_PUBLIC_KEY = ''4zvwRjXUKGfvwnParsHAS3HuSVzV5cA4McphgmoCtajS'',
       CGT_TREASURY_PRIVATE_KEY = treasury_secret,
       PAYMENT_RECEIVER_WALLET = ''4DZPTePbiBvkEWPgbUM53LszBCEobGxEaFga43gQHNdz'',
       ENV_CGT_DECIMALS = 9,
       ENV_ALLOWED_RECIPIENTS = None,
       SOLANA_RPC_URL = ''https://rpc.example.org'',
       SOLANA_RPC_PRIMARY = [],
       ENV_PRESALE_START = 0,
       ENV_PRESALE_END = 0,
       ENV_PORT = 0 \<rparr>"

definition ledger_ok :: ledger where
  "ledger_ok =
     \<lparr> getLatestBlockhash = (\<lambda>ep. Inr ''blockhash''),
       confirmTransaction = (\<lambda>ep sg. Inr None),
       getAccount = (\<lambda>ep a. Inr 0),
       getAccountInfo = (\<lambda>ep a. Inr True),
       getMint = (\<lambda>ep m. Inr 6),
       sendTransaction = (\<lambda>ep tx. Inr ''treasury-signature''),
       landed = (\<lambda>sg. Some \<lparr> onchain_payer = wallet_B, onchain_asset = ''USDT'',
                              onchain_amount = 1 \<rparr>),
       onCurve = (\<lambda>s. s = wallet_A \<or> s = wallet_B) \<rparr>"

definition now_in_presale :: int where
  "now_in_presale = 1751000000000"

text \<open>Two requests to \<^verbatim>\<open>POST /api/transfer-cgt\<close> for 5 reward units to \<open>wallet_A\<close>: one
  stamped 300001 ms before the time of the call, one stamped 0.\<close>

definition stale_request :: transfer_request where
  "stale_request =
     \<lparr> req_recipientWallet = wallet_A, req_amount = 5, req_timestamp = now_in_presale - 300001 \<rparr>"

definition zero_timestamp_request :: transfer_request where
  "zero_timestamp_request =
     \<lparr> req_recipientWallet = wallet_A, req_amount = 5, req_timestamp = 0 \<rparr>"

text \<open>The body of a payment request for 0.1 SOL in which the client also sends a reward
  figure of 999999.\<close>

definition verify_request :: payment_request where
  "verify_request =
     \<lparr> body_signature = ''paid'', body_wallet = wallet_A, body_amount = fl (1 / 10),
       body_tokenType = ''SOL'', body_cgtAmount = 999999 \<rparr>"

text \<open>Deployments that differ from \<open>env_ok\<close> in one value: the treasury secret absent;
  the secret a base58 text that decodes to 3 bytes; the mint a base58 text that decodes
  to 3 bytes; the first endpoint of the secure API the endpoint of the token and
  payment services.\<close>

definition env_no_secret :: env where
  "env_no_secret = env_ok \<lparr> CGT_TREASURY_PRIVATE_KEY := [] \<rparr>"

definition env_short_secret :: env where
  "env_short_secret = env_ok \<lparr> CGT_TREASURY_PRIVATE_KEY := ''abc'' \<rparr>"

definition env_short_mint :: env where
  "env_short_mint = env_ok \<lparr> CGT_MINT_ADDRESS := ''abc'' \<rparr>"

definition env_one_rpc :: env where
  "env_one_rpc = env_ok \<lparr> SOLANA_RPC_PRIMARY := ''https://rpc.example.org'' \<rparr>"

text \<open>Ledgers that differ from \<open>ledger_ok\<close>: one on which every call made on the
  endpoint \<^verbatim>\<open>https://rpc.example.org\<close> fails while the other endpoints answer; one on
  which nobody has a token account. Then a time after the presale and a fresh direct
  request made at that time.\<close>

definition down :: string where
  "down = ''https://rpc.example.org''"

definition ledger_first_down :: ledger where
  "ledger_first_down =
     \<lparr> getLatestBlockhash = (\<lambda>ep. if ep = down then Inl ''fetch failed'' else Inr ''blockhash''),
       confirmTransaction = (\<lambda>ep sg. if ep = down then Inl ''fetch failed'' else Inr None),
       getAccount = (\<lambda>ep a. if ep = down then Inl ''fetch failed'' else Inr 0),
       getAccountInfo = (\<lambda>ep a. if ep = down then Inl ''fetch failed'' else Inr True),
       getMint = (\<lambda>ep m. if ep = down then Inl ''fetch failed'' else Inr 6),
       sendTransaction =
         (\<lambda>ep tx. if ep = down then Inl ''fetch failed'' else Inr ''treasury-signature''),
       landed = (\<lambda>sg. None),
       onCurve = (\<lambda>s. s = wallet_A \<or> s = wallet_B) \<rparr>"

definition ledger_no_account :: ledger where
  "ledger_no_account =
     ledger_ok \<lparr> getAccount := (\<lambda>ep a. Inl ''TokenAccountNotFoundError'') \<rparr>"

definition now_after_presale :: int where
  "now_after_presale = 1760000000000"

definition late_request :: transfer_request where
  "late_request =
     \<lparr> req_recipientWallet = wallet_A, req_amount = 5, req_timestamp = now_after_presale \<rparr>"

text \<open>Disbursing 1.5 reward units to \<open>wallet_A\<close> on either path.\<close>

definition direct_transfer :: "body \<times> log" where
  "direct_transfer =
     executeSecureCgtTransfer (SERVER_CONFIG env_ok) ledger_ok (SERVER_RPC_ENDPOINTS env_ok)
       now_in_presale [] wallet_A (3 / 2)"

definition service_transfer :: "(error + transfer_result) \<times> log" where
  "service_transfer =
     transferCgtTokens (TOKEN_CONFIG env_ok) ledger_ok now_in_presale [] wallet_A (3 / 2)"

section \<open>Properties\<close>

subsection \<open>Addresses, doubles and logs\<close>

lemma bs58_decode_Nil: "bs58_decode [] = Some 0"
  by (simp add: bs58_decode_def)

lemma PublicKey_Inr: "PublicKey s = Inr a \<Longrightarrow> a = Wallet s \<and> s \<noteq> []"
  by (auto simp: PublicKey_def bs58_decode_Nil split: option.splits if_splits)

lemma isValidSolanaAddress_nonempty: "isValidSolanaAddress w \<Longrightarrow> w \<noteq> []"
  by (auto simp: isValidSolanaAddress_def dest: PublicKey_Inr split: sum.splits)

lemma getAssociatedTokenAddress_Inr:
  "getAssociatedTokenAddress L mint owner = Inr a \<Longrightarrow> a = ATA mint owner \<and> isOnCurve L owner"
  by (auto simp: getAssociatedTokenAddress_def split: if_splits)

lemma powers_of_ten_exact: "\<forall>d \<in> set [0..<23]. Math_pow10 d = 10 ^ d"
  by code_simp

lemma Math_pow10_exact: "d \<le> 22 \<Longrightarrow> Math_pow10 d = 10 ^ d"
  using powers_of_ten_exact by simp

lemma u64_in_range: "0 \<le> n \<Longrightarrow> n < 2 ^ 64 \<Longrightarrow> u64 n = Some n"
  by (simp add: u64_def)

lemma disbursements_append: "disbursements (xs @ ys) = disbursements xs @ disbursements ys"
  by (simp add: disbursements_def)

lemma base_units_sent_append: "base_units_sent (xs @ ys) = base_units_sent xs @ base_units_sent ys"
  by (simp add: base_units_sent_def)

lemma create_account_tx_sent [simp]:
  "base_units_sent [(ep, create_account_tx p a ow m)] = []"
  "disbursements [(ep, create_account_tx p a ow m)] = []"
  by (simp_all add: base_units_sent_def disbursements_def create_account_tx_def)

lemma transfer_tx_sent [simp]:
  "base_units_sent [(ep, transfer_tx s d ow n)] = [u64 n]"
  "disbursements [(ep, transfer_tx s d ow n)] = [(ep, transfer_tx s d ow n)]"
  by (simp_all add: base_units_sent_def disbursements_def transfer_tx_def)

lemma secure_transfer_tx_sent [simp]:
  "base_units_sent [(ep', secure_transfer_tx L ep kp r m ta ra n)] = [u64 n]"
  by (simp add: base_units_sent_def secure_transfer_tx_def split: sum.splits)

subsection \<open>The token service's transfer\<close>

lemma ensureTokenAccount_log:
  assumes "ensureTokenAccount cfg L lg w = (r, lg')"
  shows "base_units_sent lg' = base_units_sent lg \<and> disbursements lg' = disbursements lg"
  using assms
  by (auto simp: ensureTokenAccount_def base_units_sent_append disbursements_append
      split: sum.splits)

lemma transfer_body_success:
  assumes "transfer_body cfg L lg w R = (Inr r, lg')"
  shows "\<exists>d lg1 kp sg.
           getMint L (rpcUrl cfg) (Wallet (CGT_MINT cfg)) = Inr d \<and>
           getTreasuryKeypair cfg = Inr kp \<and>
           r = TransferResult sg R w \<and>
           lg' = lg1 @ [(rpcUrl cfg,
                   transfer_tx (ATA (Wallet (CGT_MINT cfg)) kp)
                     (ATA (Wallet (CGT_MINT cfg)) (Wallet w)) kp
                     \<lfloor>fl (R * Math_pow10 d)\<rfloor>)] \<and>
           base_units_sent lg1 = base_units_sent lg \<and> disbursements lg1 = disbursements lg"
  using assms
  by (auto simp: transfer_body_def split: sum.splits prod.splits
      dest!: ensureTokenAccount_log PublicKey_Inr getAssociatedTokenAddress_Inr)

lemma transferCgtTokens_success:
  assumes "transferCgtTokens cfg L now lg w R = (Inr r, lg')"
  shows "isPresaleActive cfg now \<and> transfer_body cfg L lg w R = (Inr r, lg')"
  using assms
  by (auto simp: transferCgtTokens_def split: if_splits sum.splits prod.splits)

lemma transferCgtTokens_disburses:
  assumes "transferCgtTokens cfg L now lg w R = (Inr r, lg')"
  shows "\<exists>d. getMint L (rpcUrl cfg) (Wallet (CGT_MINT cfg)) = Inr d \<and>
           base_units_sent lg' = base_units_sent lg @ [u64 \<lfloor>fl (R * Math_pow10 d)\<rfloor>] \<and>
           length (disbursements lg') = Suc (length (disbursements lg))"
proof -
  from assms have "transfer_body cfg L lg w R = (Inr r, lg')"
    by (simp add: transferCgtTokens_success)
  from transfer_body_success [OF this] show ?thesis
    by (auto simp: base_units_sent_append disbursements_append)
qed

subsection \<open>Payment verification\<close>




text \<open>For instance the request \<open>verify_request\<close>, made during the presale on a ledger
  that reports its signature confirmed: the answer is the 500 of the route and nothing
  is broadcast.\<close>

lemma verify_request_answer:
  "confirmTransaction ledger_ok (rpcUrl (TOKEN_CONFIG env_ok)) (body_signature verify_request)
     = Inr None
   \<and> payment_verify (TOKEN_CONFIG env_ok) ledger_ok now_in_presale [] verify_request
       = (\<lparr> status = 500, body = ErrorBody ''Failed to verify payment'' \<rparr>, [])"
  by code_simp


text \<open>
  The statements of \<^verbatim>\<open>verifyPayment\<close> that follow the opening of the connection are never
  reached. As written, they would credit on confirmation alone and on every call: they
  keep no record of a signature.
\<close>

lemma verifyPayment_confirmed_credit:
  assumes "snd (verifyPayment_confirmed cfg L c now lg S w a t) \<noteq> lg"
  shows "confirmTransaction L c S = Inr None"
  using assms
  by (auto simp: verifyPayment_confirmed_def split: sum.splits prod.splits option.splits)

lemma verifyPayment_confirmed_success:
  assumes "verifyPayment_confirmed cfg L c now lg S w a t = (Inr r, lg')"
  shows "\<exists>amt tr. calculateCgtAmount cfg a t = Inr amt \<and>
           transferCgtTokens cfg L now lg w amt = (Inr tr, lg') \<and>
           r = VerifyResult True (tr_signature tr) amt w"
  using assms
  by (auto simp: verifyPayment_confirmed_def split: sum.splits prod.splits option.splits)

lemma verifyPayment_confirmed_twice:
  assumes "verifyPayment_confirmed cfg L1 c1 now1 lg S w a t = (Inr r1, lg1)"
    and "verifyPayment_confirmed cfg L2 c2 now2 lg1 S w a t = (Inr r2, lg2)"
  shows "length (disbursements lg2) = length (disbursements lg) + 2"
proof -
  from verifyPayment_confirmed_success [OF assms(1)] obtain amt1 tr1 where
    t1: "transferCgtTokens cfg L1 now1 lg w amt1 = (Inr tr1, lg1)" by blast
  from verifyPayment_confirmed_success [OF assms(2)] obtain amt2 tr2 where
    t2: "transferCgtTokens cfg L2 now2 lg1 w amt2 = (Inr tr2, lg2)" by blast
  from transferCgtTokens_disburses [OF t1] transferCgtTokens_disburses [OF t2]
  show ?thesis by auto
qed



subsection \<open>The direct transfer route\<close>

text \<open>
  Claim C3, as amended. A request to \<^verbatim>\<open>POST /api/transfer-cgt\<close> with a well-formed
  recipient address and an amount within \<open>[MIN_TRANSFER_AMOUNT, MAX_TRANSFER_AMOUNT]\<close>
  whose timestamp is more than 300000 ms away from the current time is answered with
  HTTP 400 and no transaction is broadcast; the error is \<^verbatim>\<open>Request expired\<close> unless the
  timestamp is 0, which the presence check reports first as
  \<^verbatim>\<open>Missing required parameters\<close>.
\<close>

theorem C3_stale_request_rejected:
  assumes "isValidSolanaAddress (req_recipientWallet req)"
    and "MIN_TRANSFER_AMOUNT (SERVER_CONFIG e) \<le> req_amount req"
    and "req_amount req \<le> MAX_TRANSFER_AMOUNT (SERVER_CONFIG e)"
    and "\<bar>now - req_timestamp req\<bar> > 300000"
  shows "transfer_cgt (SERVER_CONFIG e) L endpoints now lg req =
           (\<lparr> status = 400,
              body = Failure (if req_timestamp req = 0 then ''Missing required parameters''
                              else ''Request expired'') \<rparr>, lg)"
proof -
  from assms(1) have "req_recipientWallet req \<noteq> []"
    by (rule isValidSolanaAddress_nonempty)
  moreover from assms(2) have "req_amount req \<noteq> 0"
    by (auto simp: SERVER_CONFIG_def)
  ultimately show ?thesis
    using assms by (simp add: transfer_cgt_def)
qed

theorem C3_stale_request_rejected_witness:
  "isValidSolanaAddress (req_recipientWallet stale_request)
   \<and> MIN_TRANSFER_AMOUNT (SERVER_CONFIG env_ok) \<le> req_amount stale_request
   \<and> req_amount stale_request \<le> MAX_TRANSFER_AMOUNT (SERVER_CONFIG env_ok)
   \<and> \<bar>now_in_presale - req_timestamp stale_request\<bar> > 300000
   \<and> transfer_cgt (SERVER_CONFIG env_ok) ledger_ok (SERVER_RPC_ENDPOINTS env_ok) now_in_presale []
        stale_request
       = (\<lparr> status = 400, body = Failure ''Request expired'' \<rparr>, [])"
proof -
  have h1: "isValidSolanaAddress (req_recipientWallet stale_request)" by code_simp
  have h2: "MIN_TRANSFER_AMOUNT (SERVER_CONFIG env_ok) \<le> req_amount stale_request" by code_simp
  have h3: "req_amount stale_request \<le> MAX_TRANSFER_AMOUNT (SERVER_CONFIG env_ok)" by code_simp
  have h4: "\<bar>now_in_presale - req_timestamp stale_request\<bar> > 300000" by code_simp
  have h5: "req_timestamp stale_request \<noteq> 0" by code_simp
  from C3_stale_request_rejected [OF h1 h2 h3 h4, of ledger_ok "SERVER_RPC_ENDPOINTS env_ok" "[]"]
    h1 h2 h3 h4 h5
  show ?thesis by simp
qed

text \<open>
  Claim C3 as stated fails at the timestamp 0: the address is well formed, the amount is
  in bounds and the timestamp is far older than five minutes, but the answer is
  \<^verbatim>\<open>Missing required parameters\<close>, not \<^verbatim>\<open>Request expired\<close>.
\<close>

theorem C3_zero_timestamp_reported_missing:
  "isValidSolanaAddress (req_recipientWallet zero_timestamp_request)
   \<and> MIN_TRANSFER_AMOUNT (SERVER_CONFIG env_ok) \<le> req_amount zero_timestamp_request
   \<and> req_amount zero_timestamp_request \<le> MAX_TRANSFER_AMOUNT (SERVER_CONFIG env_ok)
   \<and> \<bar>now_in_presale - req_timestamp zero_timestamp_request\<bar> > 300000
   \<and> transfer_cgt (SERVER_CONFIG env_ok) ledger_ok (SERVER_RPC_ENDPOINTS env_ok) now_in_presale []
        zero_timestamp_request
       = (\<lparr> status = 400, body = Failure ''Missing required parameters'' \<rparr>, [])"
  by code_simp

subsection \<open>The amount of a disbursement\<close>

lemma sendAndConfirmTransaction_success:
  assumes "sendAndConfirmTransaction L ep lg tx = (Inr sg, lg')"
  shows "lg' = lg @ [(ep, tx)] \<and> sendTransaction L ep tx = Inr sg
         \<and> confirmTransaction L ep sg = Inr None"
  using assms
  by (auto simp: sendAndConfirmTransaction_def split: sum.splits option.splits)

lemma executeSecureCgtTransfer_success:
  assumes "executeSecureCgtTransfer cfg L eps now lg w R = (TransferOk sg R' w' ts, lg')"
  shows "\<exists>ep d kp.
           getSecureConnection L eps = Inr ep \<and>
           getMint L ep (Wallet (CGT_MINT cfg)) = Inr d \<and>
           getTreasuryKeypair cfg = Inr kp \<and> onCurve L w \<and>
           lg' = lg @ [(ep, secure_transfer_tx L ep kp (Wallet w) (Wallet (CGT_MINT cfg))
                          (ATA (Wallet (CGT_MINT cfg)) kp) (ATA (Wallet (CGT_MINT cfg)) (Wallet w))
                          \<lfloor>fl (R * Math_pow10 d)\<rfloor>)] \<and>
           sendTransaction L ep
             (secure_transfer_tx L ep kp (Wallet w) (Wallet (CGT_MINT cfg))
                (ATA (Wallet (CGT_MINT cfg)) kp) (ATA (Wallet (CGT_MINT cfg)) (Wallet w))
                \<lfloor>fl (R * Math_pow10 d)\<rfloor>) = Inr sg \<and>
           confirmTransaction L ep sg = Inr None \<and> R' = R \<and> w' = w \<and> ts = now"
  using assms
  by (auto simp: executeSecureCgtTransfer_def executeSecureCgtTransfer_body_def
      split: sum.splits prod.splits
      dest!: sendAndConfirmTransaction_success PublicKey_Inr getAssociatedTokenAddress_Inr)

text \<open>
  Claim C4, as amended. Every disbursement of a reward amount \<open>R\<close> transfers
  \<^verbatim>\<open>Math.floor\<close> of the double-precision product of \<open>R\<close> and \<open>10 ^ d\<close>, as far as it
  fits the 64-bit amount field, where \<open>d\<close> is the decimals value the ledger reports
  for the mint during that call (\<^verbatim>\<open>getMint\<close>), not the configured \<^verbatim>\<open>CGT_DECIMALS\<close> or
  \<^verbatim>\<open>DECIMALS\<close>; this is stated for mints of at most 22 decimals, where
  \<^verbatim>\<open>Math.pow(10, d)\<close> is \<open>10 ^ d\<close> exactly. It holds on the direct route
  (\<^verbatim>\<open>executeSecureCgtTransfer\<close>) and in the token service (\<^verbatim>\<open>transferCgtTokens\<close>). Where
  the product \<open>R \<times> 10 ^ d\<close> is itself a double, the amount is \<open>\<lfloor>R \<times> 10 ^ d\<rfloor>\<close>.
\<close>

theorem C4_base_units_are_floor_of_double_product:
  "(executeSecureCgtTransfer scfg L eps now lg w R = (TransferOk sg R' w' ts, lg1) \<longrightarrow>
      (\<exists>ep d. getSecureConnection L eps = Inr ep \<and>
         getMint L ep (Wallet (CGT_MINT scfg)) = Inr d \<and>
         (d \<le> 22 \<longrightarrow>
            base_units_sent lg1 = base_units_sent lg @ [u64 \<lfloor>fl (R * 10 ^ d)\<rfloor>])))
   \<and> (transferCgtTokens tcfg L now lg w R = (Inr r, lg2) \<longrightarrow>
      (\<exists>d. getMint L (rpcUrl tcfg) (Wallet (CGT_MINT tcfg)) = Inr d \<and>
         (d \<le> 22 \<longrightarrow>
            base_units_sent lg2 = base_units_sent lg @ [u64 \<lfloor>fl (R * 10 ^ d)\<rfloor>])))
   \<and> (is_double (R * 10 ^ k) \<longrightarrow> 0 \<le> R \<longrightarrow> R * 10 ^ k < 2 ^ 64 \<longrightarrow>
        u64 \<lfloor>fl (R * 10 ^ k)\<rfloor> = Some \<lfloor>R * 10 ^ k\<rfloor>)"
proof (intro conjI impI)
  assume "executeSecureCgtTransfer scfg L eps now lg w R = (TransferOk sg R' w' ts, lg1)"
  from executeSecureCgtTransfer_success [OF this] obtain ep d kp where
    "getSecureConnection L eps = Inr ep" "getMint L ep (Wallet (CGT_MINT scfg)) = Inr d"
    "lg1 = lg @ [(ep, secure_transfer_tx L ep kp (Wallet w) (Wallet (CGT_MINT scfg))
                    (ATA (Wallet (CGT_MINT scfg)) kp) (ATA (Wallet (CGT_MINT scfg)) (Wallet w))
                    \<lfloor>fl (R * Math_pow10 d)\<rfloor>)]"
    by blast
  then show "\<exists>ep d. getSecureConnection L eps = Inr ep \<and>
         getMint L ep (Wallet (CGT_MINT scfg)) = Inr d \<and>
         (d \<le> 22 \<longrightarrow>
            base_units_sent lg1 = base_units_sent lg @ [u64 \<lfloor>fl (R * 10 ^ d)\<rfloor>])"
    by (auto simp: base_units_sent_append Math_pow10_exact)
next
  assume "transferCgtTokens tcfg L now lg w R = (Inr r, lg2)"
  from transferCgtTokens_disburses [OF this]
  show "\<exists>d. getMint L (rpcUrl tcfg) (Wallet (CGT_MINT tcfg)) = Inr d \<and>
         (d \<le> 22 \<longrightarrow>
            base_units_sent lg2 = base_units_sent lg @ [u64 \<lfloor>fl (R * 10 ^ d)\<rfloor>])"
    by (auto simp: Math_pow10_exact)
next
  assume "is_double (R * 10 ^ k)" and "0 \<le> R" and "R * 10 ^ k < 2 ^ 64"
  then have "fl (R * 10 ^ k) = R * 10 ^ k" and "0 \<le> \<lfloor>R * 10 ^ k\<rfloor>"
    and "\<lfloor>R * 10 ^ k\<rfloor> < 2 ^ 64"
    by (simp_all add: is_double_def floor_less_iff)
  then show "u64 \<lfloor>fl (R * 10 ^ k)\<rfloor> = Some \<lfloor>R * 10 ^ k\<rfloor>"
    by (simp add: u64_def)
qed

text \<open>The mint reports 6 decimals while both configurations say 9: disbursing 1.5
  transfers 1500000 base units on either path, never 1500000000.\<close>

theorem C4_base_units_are_floor_of_double_product_witness:
  "CGT_DECIMALS (SERVER_CONFIG env_ok) = 9 \<and> DECIMALS (TOKEN_CONFIG env_ok) = 9
   \<and> fst direct_transfer = TransferOk ''treasury-signature'' (3 / 2) wallet_A now_in_presale
   \<and> base_units_sent (snd direct_transfer) = [Some 1500000]
   \<and> fst service_transfer = Inr (TransferResult ''treasury-signature'' (3 / 2) wallet_A)
   \<and> base_units_sent (snd service_transfer) = [Some 1500000]
   \<and> is_double ((3 / 2) * 10 ^ 6)
   \<and> u64 \<lfloor>fl ((3 / 2 :: rat) * 10 ^ 6)\<rfloor> = Some \<lfloor>(3 / 2 :: rat) * 10 ^ 6\<rfloor>"
proof -
  have h1: "executeSecureCgtTransfer (SERVER_CONFIG env_ok) ledger_ok (SERVER_RPC_ENDPOINTS env_ok)
              now_in_presale [] wallet_A (3 / 2)
            = (TransferOk ''treasury-signature'' (3 / 2) wallet_A now_in_presale, snd direct_transfer)"
    by code_simp
  have h2: "transferCgtTokens (TOKEN_CONFIG env_ok) ledger_ok now_in_presale [] wallet_A (3 / 2)
            = (Inr (TransferResult ''treasury-signature'' (3 / 2) wallet_A), snd service_transfer)"
    by code_simp
  have h3: "is_double ((3 / 2) * 10 ^ 6)" by code_simp
  have six: "getMint ledger_ok ep m = Inr d \<Longrightarrow> d = 6" for ep m d
    by (simp add: ledger_ok_def)
  have nil: "base_units_sent [] = []"
    by (simp add: base_units_sent_def)
  have val: "u64 \<lfloor>fl ((3 / 2 :: rat) * 10 ^ 6)\<rfloor> = Some 1500000" by code_simp
  note inst = C4_base_units_are_floor_of_double_product
    [of "SERVER_CONFIG env_ok" ledger_ok "SERVER_RPC_ENDPOINTS env_ok" now_in_presale "[]" wallet_A
        "3 / 2" "''treasury-signature''" "3 / 2" wallet_A now_in_presale "snd direct_transfer"
        "TOKEN_CONFIG env_ok" "TransferResult ''treasury-signature'' (3 / 2) wallet_A"
        "snd service_transfer" 6]
  from inst [THEN conjunct1, THEN mp, OF h1] obtain ep d1 where
    m1: "getMint ledger_ok ep (Wallet (CGT_MINT (SERVER_CONFIG env_ok))) = Inr d1"
    and s1: "d1 \<le> 22 \<longrightarrow> base_units_sent (snd direct_transfer)
               = base_units_sent [] @ [u64 \<lfloor>fl ((3 / 2 :: rat) * 10 ^ d1)\<rfloor>]"
    by blast
  from m1 have "d1 = 6" by (rule six)
  with s1 val have "base_units_sent (snd direct_transfer) = [Some 1500000]"
    by (simp add: nil)
  moreover
  from inst [THEN conjunct2, THEN conjunct1, THEN mp, OF h2] obtain d2 where
    m2: "getMint ledger_ok (rpcUrl (TOKEN_CONFIG env_ok)) (Wallet (CGT_MINT (TOKEN_CONFIG env_ok)))
           = Inr d2"
    and s2: "d2 \<le> 22 \<longrightarrow> base_units_sent (snd service_transfer)
               = base_units_sent [] @ [u64 \<lfloor>fl ((3 / 2 :: rat) * 10 ^ d2)\<rfloor>]"
    by blast
  from m2 have "d2 = 6" by (rule six)
  with s2 val have "base_units_sent (snd service_transfer) = [Some 1500000]"
    by (simp add: nil)
  moreover
  from inst [THEN conjunct2, THEN conjunct2] h3
  have "u64 \<lfloor>fl ((3 / 2 :: rat) * 10 ^ 6)\<rfloor> = Some \<lfloor>(3 / 2 :: rat) * 10 ^ 6\<rfloor>"
    by simp
  moreover have "CGT_DECIMALS (SERVER_CONFIG env_ok) = 9 \<and> DECIMALS (TOKEN_CONFIG env_ok) = 9"
    by code_simp
  moreover have "fst direct_transfer = TransferOk ''treasury-signature'' (3 / 2) wallet_A now_in_presale"
    by code_simp
  moreover have "fst service_transfer = Inr (TransferResult ''treasury-signature'' (3 / 2) wallet_A)"
    by code_simp
  ultimately show ?thesis using h3 by simp
qed

text \<open>
  Claim C4 as stated fails: the amount is the floor of a rounded product. For the reward
  amount 1.7 (the double nearest to it) and a mint of 6 decimals the treasury sends
  1700000 base units although \<open>\<lfloor>R \<times> 10 ^ 6\<rfloor>\<close> is 1699999 for that double; for 2.01
  it sends 2009999 although \<open>\<lfloor>2.01 \<times> 10 ^ 6\<rfloor>\<close> is 2010000.
\<close>

theorem C4_floor_of_rounded_product_differs:
  "base_units_sent (snd (executeSecureCgtTransfer (SERVER_CONFIG env_ok) ledger_ok
        (SERVER_RPC_ENDPOINTS env_ok) now_in_presale [] wallet_A (fl (17 / 10)))) = [Some 1700000]
   \<and> \<lfloor>fl (17 / 10) * 10 ^ 6\<rfloor> = 1699999
   \<and> base_units_sent (snd (executeSecureCgtTransfer (SERVER_CONFIG env_ok) ledger_ok
        (SERVER_RPC_ENDPOINTS env_ok) now_in_presale [] wallet_A (fl (201 / 100)))) = [Some 2009999]
   \<and> \<lfloor>(201 / 100 :: rat) * 10 ^ 6\<rfloor> = 2010000
   \<and> base_units_sent (snd (transferCgtTokens (TOKEN_CONFIG env_ok) ledger_ok now_in_presale []
        wallet_A (fl (201 / 100)))) = [Some 2009999]"
  by code_simp

subsection \<open>The reward for a payment\<close>

lemma toUpperCase_literals:
  "toUpperCase ''SOL'' = ''SOL''" "toUpperCase ''USDT'' = ''USDT''"
  "toUpperCase ''USDC'' = ''USDC''"
  by code_simp+








subsection \<open>Amounts out of bounds\<close>

lemma PublicKey_of_receiver:
  "PublicKey_of TOKEN_CONFIG_PAYMENT_RECEIVER
     = Inl ''Cannot read properties of undefined (reading '_bn')''"
  by (simp add: PublicKey_of_def TOKEN_CONFIG_PAYMENT_RECEIVER_def)

lemma createPayment_body_throws:
  "createPayment_body cfg L now w a t =
     Inl (if \<not> isPresaleActive cfg now then ''Presale is not active''
          else case PublicKey w of
                 Inl err \<Rightarrow> err
               | Inr _ \<Rightarrow> ''Cannot read properties of undefined (reading '_bn')'')"
  by (simp add: createPayment_body_def PublicKey_of_receiver split: sum.splits)

lemma createPayment_throws:
  "createPayment cfg L now w a t =
     Inl (''Failed to create payment: '' @
          (if \<not> isPresaleActive cfg now then ''Presale is not active''
           else case PublicKey w of
                  Inl err \<Rightarrow> err
                | Inr _ \<Rightarrow> ''Cannot read properties of undefined (reading '_bn')''))"
  by (simp add: createPayment_def createPayment_body_throws)

text \<open>
  Claim C6. The claim is that a payment-creation request with an amount outside the
  asset's bounds fails with a bounds error. \<^verbatim>\<open>createPayment\<close> of \<^verbatim>\<open>src/unnamed/part_001\<close>
  never calls \<^verbatim>\<open>validatePaymentAmount\<close>, which stands in the same file. It returns no
  transaction for any request, and the error it reports never depends on the amount:
  it is the presale error, the error of the wallet address, or the \<^verbatim>\<open>TypeError\<close> raised
  on the undefined \<^verbatim>\<open>TOKEN_CONFIG.PAYMENT_RECEIVER\<close>; the route answers 400 or 500 with
  a fixed text. The builders of \<^verbatim>\<open>src/server/services/paymentService.js\<close> do validate
  first: what \<^verbatim>\<open>validatePaymentAmount\<close> rejects they reject with its message, which for a
  positive amount outside the bounds is the bounds error of the asset.
\<close>

theorem C6_createPayment_reports_no_bounds_error:
  "createPayment cfg L now w a t =
     Inl (''Failed to create payment: '' @
          (if \<not> isPresaleActive cfg now then ''Presale is not active''
           else case PublicKey w of
                  Inl err \<Rightarrow> err
                | Inr _ \<Rightarrow> ''Cannot read properties of undefined (reading '_bn')''))
   \<and> createPayment cfg L now w a t = createPayment cfg L now w a' t
   \<and> payment_create cfg L now req =
       (if body_wallet req = [] \<or> body_amount req = 0 \<or> body_tokenType req = []
        then \<lparr> status = 400, body = ErrorBody ''Missing required parameters'' \<rparr>
        else \<lparr> status = 500, body = ErrorBody ''Failed to create payment'' \<rparr>)
   \<and> (validatePaymentAmount a ''SOL'' = Inl err \<longrightarrow>
        ps_createSolPayment e L w a = Inl (''Failed to create SOL payment: '' @ err))
   \<and> (validatePaymentAmount a t = Inl err \<longrightarrow>
        ps_createSplTokenPayment e L w a t = Inl (''Failed to create '' @ t @ '' payment: '' @ err))
   \<and> (0 < a \<longrightarrow> a < MIN_SOL \<or> MAX_SOL < a \<longrightarrow>
        validatePaymentAmount a ''SOL'' = Inl ''SOL amount must be between 0.05 and 1000'')
   \<and> (0 < a \<longrightarrow> a < MIN_USDT \<or> MAX_USDT < a \<longrightarrow>
        validatePaymentAmount a ''USDT'' = Inl ''USDT amount must be between 1 and 50000'')
   \<and> (0 < a \<longrightarrow> a < MIN_USDC \<or> MAX_USDC < a \<longrightarrow>
        validatePaymentAmount a ''USDC'' = Inl ''USDC amount must be between 1 and 50000'')"
proof (intro conjI impI)
  show "createPayment cfg L now w a t =
     Inl (''Failed to create payment: '' @
          (if \<not> isPresaleActive cfg now then ''Presale is not active''
           else case PublicKey w of
                  Inl err \<Rightarrow> err
                | Inr _ \<Rightarrow> ''Cannot read properties of undefined (reading '_bn')''))"
    by (rule createPayment_throws)
next
  show "createPayment cfg L now w a t = createPayment cfg L now w a' t"
    by (simp only: createPayment_throws)
next
  show "payment_create cfg L now req =
       (if body_wallet req = [] \<or> body_amount req = 0 \<or> body_tokenType req = []
        then \<lparr> status = 400, body = ErrorBody ''Missing required parameters'' \<rparr>
        else \<lparr> status = 500, body = ErrorBody ''Failed to create payment'' \<rparr>)"
    by (simp add: payment_create_def createPayment_throws)
next
  assume "validatePaymentAmount a ''SOL'' = Inl err"
  then show "ps_createSolPayment e L w a = Inl (''Failed to create SOL payment: '' @ err)"
    by (simp add: ps_createSolPayment_def)
next
  assume "validatePaymentAmount a t = Inl err"
  then show "ps_createSplTokenPayment e L w a t
               = Inl (''Failed to create '' @ t @ '' payment: '' @ err)"
    by (simp add: ps_createSplTokenPayment_def)
next
  assume "0 < a" and "a < MIN_SOL \<or> MAX_SOL < a"
  then show "validatePaymentAmount a ''SOL'' = Inl ''SOL amount must be between 0.05 and 1000''"
    by (auto simp: validatePaymentAmount_def toUpperCase_literals)
next
  assume "0 < a" and "a < MIN_USDT \<or> MAX_USDT < a"
  then show "validatePaymentAmount a ''USDT'' = Inl ''USDT amount must be between 1 and 50000''"
    by (auto simp: validatePaymentAmount_def toUpperCase_literals)
next
  assume "0 < a" and "a < MIN_USDC \<or> MAX_USDC < a"
  then show "validatePaymentAmount a ''USDC'' = Inl ''USDC amount must be between 1 and 50000''"
    by (auto simp: validatePaymentAmount_def toUpperCase_literals)
qed

text \<open>During the presale, for \<open>wallet_A\<close>: 100000 USDT is out of bounds, and
  \<^verbatim>\<open>createPayment\<close> reports for it the error it reports for 10 USDT, while the validating
  builder reports the bounds error.\<close>

theorem C6_createPayment_reports_no_bounds_error_witness:
  "(0 :: rat) < 100000 \<and> MAX_USDT < 100000
   \<and> validatePaymentAmount 100000 ''USDT'' = Inl ''USDT amount must be between 1 and 50000''
   \<and> validatePaymentAmount 10 ''USDT'' = Inr True
   \<and> createPayment (TOKEN_CONFIG env_ok) ledger_ok now_in_presale wallet_A 100000 ''USDT''
       = Inl ''Failed to create payment: Cannot read properties of undefined (reading '_bn')''
   \<and> createPayment (TOKEN_CONFIG env_ok) ledger_ok now_in_presale wallet_A 10 ''USDT''
       = Inl ''Failed to create payment: Cannot read properties of undefined (reading '_bn')''
   \<and> ps_createSplTokenPayment env_ok ledger_ok wallet_A 100000 ''USDT''
       = Inl ''Failed to create USDT payment: USDT amount must be between 1 and 50000''
   \<and> (0 :: rat) < 2000 \<and> MAX_SOL < 2000
   \<and> validatePaymentAmount 2000 ''SOL'' = Inl ''SOL amount must be between 0.05 and 1000''
   \<and> ps_createSolPayment env_ok ledger_ok wallet_A 2000
       = Inl ''Failed to create SOL payment: SOL amount must be between 0.05 and 1000''
   \<and> (0 :: rat) < 1 / 2 \<and> 1 / 2 < MIN_USDC
   \<and> validatePaymentAmount (1 / 2) ''USDC'' = Inl ''USDC amount must be between 1 and 50000''
   \<and> payment_create (TOKEN_CONFIG env_ok) ledger_ok now_in_presale
         \<lparr> body_signature = [], body_wallet = wallet_A, body_amount = 100000,
           body_tokenType = ''USDT'', body_cgtAmount = 0 \<rparr>
       = \<lparr> status = 500, body = ErrorBody ''Failed to create payment'' \<rparr>"
proof -
  have h1: "(0 :: rat) < 100000" by simp
  have h2: "MAX_USDT < 100000" by (simp add: MAX_USDT_def)
  have h3: "validatePaymentAmount 10 ''USDT'' = Inr True" by code_simp
  have p: "isPresaleActive (TOKEN_CONFIG env_ok) now_in_presale" by code_simp
  have k: "PublicKey wallet_A = Inr (Wallet wallet_A)" by code_simp
  note inst = C6_createPayment_reports_no_bounds_error
    [of "TOKEN_CONFIG env_ok" ledger_ok now_in_presale wallet_A 100000 "''USDT''" 10 _
        "''USDT amount must be between 1 and 50000''" env_ok]
  from inst [THEN conjunct2, THEN conjunct2, THEN conjunct2, THEN conjunct2, THEN conjunct2,
      THEN conjunct2, THEN conjunct1] h1 h2
  have v: "validatePaymentAmount 100000 ''USDT'' = Inl ''USDT amount must be between 1 and 50000''"
    by simp
  from inst [THEN conjunct2, THEN conjunct2, THEN conjunct2, THEN conjunct2, THEN conjunct1] v
  have s: "ps_createSplTokenPayment env_ok ledger_ok wallet_A 100000 ''USDT''
       = Inl ''Failed to create USDT payment: USDT amount must be between 1 and 50000''"
    by simp
  from inst [THEN conjunct1] p k
  have c1: "createPayment (TOKEN_CONFIG env_ok) ledger_ok now_in_presale wallet_A 100000 ''USDT''
       = Inl ''Failed to create payment: Cannot read properties of undefined (reading '_bn')''"
    by simp
  from inst [THEN conjunct2, THEN conjunct1] c1
  have c2: "createPayment (TOKEN_CONFIG env_ok) ledger_ok now_in_presale wallet_A 10 ''USDT''
       = Inl ''Failed to create payment: Cannot read properties of undefined (reading '_bn')''"
    by simp
  note sol = C6_createPayment_reports_no_bounds_error
    [of "TOKEN_CONFIG env_ok" ledger_ok now_in_presale wallet_A 2000 "''SOL''" 10 _
        "''SOL amount must be between 0.05 and 1000''" env_ok]
  have g1: "(0 :: rat) < 2000" by simp
  have g2: "MAX_SOL < 2000" by (simp add: MAX_SOL_def)
  from sol [THEN conjunct2, THEN conjunct2, THEN conjunct2, THEN conjunct2, THEN conjunct2,
      THEN conjunct1] g1 g2
  have v2: "validatePaymentAmount 2000 ''SOL'' = Inl ''SOL amount must be between 0.05 and 1000''"
    by simp
  from sol [THEN conjunct2, THEN conjunct2, THEN conjunct2, THEN conjunct1] v2
  have s2: "ps_createSolPayment env_ok ledger_ok wallet_A 2000
       = Inl ''Failed to create SOL payment: SOL amount must be between 0.05 and 1000''"
    by simp
  note usdc = C6_createPayment_reports_no_bounds_error
    [of "TOKEN_CONFIG env_ok" ledger_ok now_in_presale wallet_A "1 / 2" "''USDC''"]
  have g3: "(0 :: rat) < 1 / 2" by simp
  have g4: "1 / 2 < MIN_USDC" by (simp add: MIN_USDC_def)
  from usdc [THEN conjunct2, THEN conjunct2, THEN conjunct2, THEN conjunct2, THEN conjunct2,
      THEN conjunct2, THEN conjunct2] g3 g4
  have v3: "validatePaymentAmount (1 / 2) ''USDC'' = Inl ''USDC amount must be between 1 and 50000''"
    by simp
  have r: "payment_create (TOKEN_CONFIG env_ok) ledger_ok now_in_presale
         \<lparr> body_signature = [], body_wallet = wallet_A, body_amount = 100000,
           body_tokenType = ''USDT'', body_cgtAmount = 0 \<rparr>
       = \<lparr> status = 500, body = ErrorBody ''Failed to create payment'' \<rparr>"
    by (simp add: inst [THEN conjunct2, THEN conjunct2, THEN conjunct1] wallet_A_def)
  from h1 h2 h3 v s c1 c2 g1 g2 v2 s2 g3 g4 v3 r show ?thesis by simp
qed

subsection \<open>Start-up\<close>

lemma check_required_missing:
  "CGT_MINT cfg = [] \<or> TREASURY_PUBLIC_KEY cfg = [] \<or> TREASURY_PRIVATE_KEY cfg = []
     \<or> PAYMENT_RECEIVER cfg = [] \<Longrightarrow> \<exists>msg. check_required required cfg = Inl msg"
  by (auto simp: required_def)

text \<open>
  Claim C7, as amended. If the mint address, the treasury public key, the treasury
  private key or the payment receiver is missing, or the private key is not base58
  text, the process exits with code 1 and no listener is bound.
\<close>

theorem C7_startup_refuses_missing_or_non_base58:
  assumes "CGT_MINT_ADDRESS e = [] \<or> CGT_TREASURY_PUBLIC_KEY e = []
           \<or> CGT_TREASURY_PRIVATE_KEY e = [] \<or> PAYMENT_RECEIVER_WALLET e = []
           \<or> bs58_decode (CGT_TREASURY_PRIVATE_KEY e) = None"
  shows "startup e = Exited 1"
proof (cases "check_required required (SERVER_CONFIG e)")
  case (Inl msg)
  then show ?thesis by (simp add: startup_def validateServerConfig_def)
next
  case (Inr u)
  with check_required_missing [of "SERVER_CONFIG e"] assms
  have "bs58_decode (CGT_TREASURY_PRIVATE_KEY e) = None"
    by (auto simp: SERVER_CONFIG_def)
  with Inr show ?thesis
    by (simp add: startup_def validateServerConfig_def SERVER_CONFIG_def)
qed

theorem C7_startup_refuses_missing_or_non_base58_witness:
  "CGT_TREASURY_PRIVATE_KEY env_no_secret = [] \<and> startup env_no_secret = Exited 1"
proof -
  have h: "CGT_TREASURY_PRIVATE_KEY env_no_secret = []" by code_simp
  then have "CGT_MINT_ADDRESS env_no_secret = [] \<or> CGT_TREASURY_PUBLIC_KEY env_no_secret = []
           \<or> CGT_TREASURY_PRIVATE_KEY env_no_secret = [] \<or> PAYMENT_RECEIVER_WALLET env_no_secret = []
           \<or> bs58_decode (CGT_TREASURY_PRIVATE_KEY env_no_secret) = None"
    by simp
  from C7_startup_refuses_missing_or_non_base58 [OF this] h show ?thesis by simp
qed

text \<open>
  Claim C7 as stated fails for a private key that is base58 text but no key: \<^verbatim>\<open>abc\<close>
  decodes to 3 bytes, \<^verbatim>\<open>Keypair.fromSecretKey\<close> rejects it, and the server still binds
  its listener.
\<close>

theorem C7_malformed_key_still_listens:
  "bs58_decode (CGT_TREASURY_PRIVATE_KEY env_short_secret) = Some 3
   \<and> getTreasuryKeypair (SERVER_CONFIG env_short_secret) = Inl ''Invalid treasury private key''
   \<and> startup env_short_secret = Listening ''127.0.0.1'' 3001"
  by code_simp

subsection \<open>Endpoints\<close>

lemma getSecureConnection_Inr:
  "getSecureConnection L eps = Inr ep \<Longrightarrow> ep \<in> set eps \<and> (\<exists>h. getLatestBlockhash L ep = Inr h)"
  by (induction eps) (auto split: sum.splits)

lemma getSecureConnection_Inl:
  "getSecureConnection L eps = Inl err \<longleftrightarrow>
     err = ''All RPC endpoints failed'' \<and> (\<forall>ep \<in> set eps. \<exists>m. getLatestBlockhash L ep = Inl m)"
  by (induction eps) (auto split: sum.splits)

lemma getSecureConnection_second:
  "getLatestBlockhash L e1 = Inl m \<Longrightarrow> getLatestBlockhash L e2 = Inr h
     \<Longrightarrow> getSecureConnection L (e1 # e2 # rest) = Inr e2"
  by simp

lemma executeSecureCgtTransfer_no_endpoint:
  "getSecureConnection L eps = Inl err
     \<Longrightarrow> executeSecureCgtTransfer cfg L eps now lg w R = (Failure ''Transfer execution failed'', lg)"
  by (simp add: executeSecureCgtTransfer_def executeSecureCgtTransfer_body_def)

lemma executeSecureCgtTransfer_on:
  assumes "getSecureConnection L eps = Inr ep"
    and "getTreasuryKeypair cfg = Inr kp"
    and "PublicKey w = Inr rk" and "onCurve L w"
    and "PublicKey (CGT_MINT cfg) = Inr mint"
    and "getMint L ep mint = Inr d"
    and "sendTransaction L ep
           (secure_transfer_tx L ep kp rk mint (ATA mint kp) (ATA mint rk)
              \<lfloor>fl (R * Math_pow10 d)\<rfloor>) = Inr sg"
    and "confirmTransaction L ep sg = Inr None"
  shows "executeSecureCgtTransfer cfg L eps now lg w R =
           (TransferOk sg R w now,
            lg @ [(ep, secure_transfer_tx L ep kp rk mint (ATA mint kp) (ATA mint rk)
                         \<lfloor>fl (R * Math_pow10 d)\<rfloor>)])"
proof -
  from assms(2) obtain k where kp: "kp = KeypairPublicKey k"
    by (auto simp: getTreasuryKeypair_def Keypair_fromSecretKey_def split: if_splits)
  from assms(3) have rk: "rk = Wallet w" by (simp add: PublicKey_Inr)
  have a1: "getAssociatedTokenAddress L mint kp = Inr (ATA mint kp)"
    by (simp add: getAssociatedTokenAddress_def kp)
  have a2: "getAssociatedTokenAddress L mint rk = Inr (ATA mint rk)"
    using assms(4) by (simp add: getAssociatedTokenAddress_def rk)
  show ?thesis
    using assms a1 a2
    by (simp add: executeSecureCgtTransfer_def executeSecureCgtTransfer_body_def
        sendAndConfirmTransaction_def)
qed

text \<open>
  Claim C8, as amended. The treasury transfer of the secure API
  (\<^verbatim>\<open>executeSecureCgtTransfer\<close>) works on the connection \<^verbatim>\<open>getSecureConnection\<close> selects,
  the first configured endpoint that answers the liveness probe
  (\<^verbatim>\<open>getLatestBlockhash\<close>): the selected endpoint is a configured one that answered;
  selection fails, with \<^verbatim>\<open>All RPC endpoints failed\<close>, exactly when every configured
  endpoint fails the probe, and the transfer then answers
  \<^verbatim>\<open>Transfer execution failed\<close> and broadcasts nothing; a transfer that succeeds was
  broadcast on the selected endpoint; and when the first endpoint fails the probe and
  the second answers the probe and the calls of the transfer, the transfer succeeds
  and is broadcast on the second endpoint. The payment service and the token service
  work on the one endpoint \<^verbatim>\<open>SOLANA_RPC_URL\<close>: \<^verbatim>\<open>verifyTransaction\<close> fails whenever
  that endpoint fails, a payment that was built took its blockhash from it, and a token
  transfer that succeeded was broadcast on it.
\<close>

theorem C8_secure_transfer_fails_over:
  "(getSecureConnection L eps = Inr ep \<longrightarrow>
      ep \<in> set eps \<and> (\<exists>h. getLatestBlockhash L ep = Inr h))
   \<and> (getSecureConnection L eps = Inl err \<longleftrightarrow>
        err = ''All RPC endpoints failed'' \<and>
        (\<forall>ep \<in> set eps. \<exists>m. getLatestBlockhash L ep = Inl m))
   \<and> (getSecureConnection L eps = Inl err \<longrightarrow>
        executeSecureCgtTransfer cfg L eps now lg w R
          = (Failure ''Transfer execution failed'', lg))
   \<and> (executeSecureCgtTransfer cfg L eps now lg w R = (TransferOk sg R' w' ts, lg') \<longrightarrow>
        (\<exists>ep tx. getSecureConnection L eps = Inr ep \<and> lg' = lg @ [(ep, tx)] \<and>
           sendTransaction L ep tx = Inr sg \<and> confirmTransaction L ep sg = Inr None))
   \<and> (getLatestBlockhash L e1 = Inl m \<longrightarrow> getLatestBlockhash L e2 = Inr h \<longrightarrow>
        getTreasuryKeypair cfg = Inr kp \<longrightarrow> PublicKey w = Inr rk \<longrightarrow> onCurve L w \<longrightarrow>
        PublicKey (CGT_MINT cfg) = Inr mint \<longrightarrow> getMint L e2 mint = Inr d \<longrightarrow>
        sendTransaction L e2
          (secure_transfer_tx L e2 kp rk mint (ATA mint kp) (ATA mint rk)
             \<lfloor>fl (R * Math_pow10 d)\<rfloor>) = Inr sg2 \<longrightarrow>
        confirmTransaction L e2 sg2 = Inr None \<longrightarrow>
        executeSecureCgtTransfer cfg L (e1 # e2 # rest) now lg w R =
          (TransferOk sg2 R w now,
           lg @ [(e2, secure_transfer_tx L e2 kp rk mint (ATA mint kp) (ATA mint rk)
                        \<lfloor>fl (R * Math_pow10 d)\<rfloor>)]))
   \<and> (confirmTransaction L (SOLANA_RPC_URL e) S = Inl m \<longrightarrow>
        verifyTransaction e L S = Inl (''Transaction verification failed: '' @ m))
   \<and> (ps_createSolPayment e L w a = Inr (tx1, c1) \<longrightarrow>
        getLatestBlockhash L (SOLANA_RPC_URL e) = Inr (recentBlockhash tx1))
   \<and> (transferCgtTokens tcfg L now lg w R = (Inr r, lg2) \<longrightarrow>
        (\<exists>lg1 tx. lg2 = lg1 @ [(rpcUrl tcfg, tx)]))"
proof (intro conjI impI)
  assume "getSecureConnection L eps = Inr ep"
  then show "ep \<in> set eps" and "\<exists>h. getLatestBlockhash L ep = Inr h"
    by (simp_all add: getSecureConnection_Inr)
next
  show "getSecureConnection L eps = Inl err \<longleftrightarrow>
        err = ''All RPC endpoints failed'' \<and>
        (\<forall>ep \<in> set eps. \<exists>m. getLatestBlockhash L ep = Inl m)"
    by (rule getSecureConnection_Inl)
next
  assume "getSecureConnection L eps = Inl err"
  then show "executeSecureCgtTransfer cfg L eps now lg w R
          = (Failure ''Transfer execution failed'', lg)"
    by (rule executeSecureCgtTransfer_no_endpoint)
next
  assume "executeSecureCgtTransfer cfg L eps now lg w R = (TransferOk sg R' w' ts, lg')"
  from executeSecureCgtTransfer_success [OF this]
  show "\<exists>ep tx. getSecureConnection L eps = Inr ep \<and> lg' = lg @ [(ep, tx)] \<and>
           sendTransaction L ep tx = Inr sg \<and> confirmTransaction L ep sg = Inr None"
    by blast
next
  assume "getLatestBlockhash L e1 = Inl m" and "getLatestBlockhash L e2 = Inr h"
    and h: "getTreasuryKeypair cfg = Inr kp" "PublicKey w = Inr rk" "onCurve L w"
      "PublicKey (CGT_MINT cfg) = Inr mint" "getMint L e2 mint = Inr d"
      "sendTransaction L e2
          (secure_transfer_tx L e2 kp rk mint (ATA mint kp) (ATA mint rk)
             \<lfloor>fl (R * Math_pow10 d)\<rfloor>) = Inr sg2"
      "confirmTransaction L e2 sg2 = Inr None"
  then have "getSecureConnection L (e1 # e2 # rest) = Inr e2"
    by (simp add: getSecureConnection_second)
  from executeSecureCgtTransfer_on [OF this h]
  show "executeSecureCgtTransfer cfg L (e1 # e2 # rest) now lg w R =
          (TransferOk sg2 R w now,
           lg @ [(e2, secure_transfer_tx L e2 kp rk mint (ATA mint kp) (ATA mint rk)
                        \<lfloor>fl (R * Math_pow10 d)\<rfloor>)])" .
next
  assume "confirmTransaction L (SOLANA_RPC_URL e) S = Inl m"
  then show "verifyTransaction e L S = Inl (''Transaction verification failed: '' @ m)"
    by (simp add: verifyTransaction_def)
next
  assume "ps_createSolPayment e L w a = Inr (tx1, c1)"
  then show "getLatestBlockhash L (SOLANA_RPC_URL e) = Inr (recentBlockhash tx1)"
    by (auto simp: ps_createSolPayment_def split: sum.splits)
next
  assume "transferCgtTokens tcfg L now lg w R = (Inr r, lg2)"
  then have "transfer_body tcfg L lg w R = (Inr r, lg2)"
    by (simp add: transferCgtTokens_success)
  from transfer_body_success [OF this]
  show "\<exists>lg1 tx. lg2 = lg1 @ [(rpcUrl tcfg, tx)]"
    by blast
qed

text \<open>
  A deployment whose first endpoint is \<^verbatim>\<open>https://rpc.example.org\<close>, on a ledger where
  every call on that endpoint fails and the second endpoint answers: the transfer of 5
  reward units succeeds and its one transaction is broadcast on the second endpoint.
  With no endpoint answering the probe the transfer is refused.
\<close>

theorem C8_secure_transfer_fails_over_witness:
  "SERVER_RPC_ENDPOINTS env_one_rpc = [down, ''https://rpc.ankr.com/solana'']
   \<and> getLatestBlockhash ledger_first_down down = Inl ''fetch failed''
   \<and> getMint ledger_first_down down (Wallet (CGT_MINT_ADDRESS env_one_rpc)) = Inl ''fetch failed''
   \<and> getLatestBlockhash ledger_first_down ''https://rpc.ankr.com/solana'' = Inr ''blockhash''
   \<and> getSecureConnection ledger_first_down (SERVER_RPC_ENDPOINTS env_one_rpc)
       = Inr ''https://rpc.ankr.com/solana''
   \<and> fst (executeSecureCgtTransfer (SERVER_CONFIG env_one_rpc) ledger_first_down
            (SERVER_RPC_ENDPOINTS env_one_rpc) now_in_presale [] wallet_A 5)
       = TransferOk ''treasury-signature'' 5 wallet_A now_in_presale
   \<and> map fst (snd (executeSecureCgtTransfer (SERVER_CONFIG env_one_rpc) ledger_first_down
            (SERVER_RPC_ENDPOINTS env_one_rpc) now_in_presale [] wallet_A 5))
       = [''https://rpc.ankr.com/solana'']
   \<and> getSecureConnection ledger_first_down [down, down] = Inl ''All RPC endpoints failed''
   \<and> executeSecureCgtTransfer (SERVER_CONFIG env_one_rpc) ledger_first_down [down, down]
        now_in_presale [] wallet_A 5 = (Failure ''Transfer execution failed'', [])
   \<and> confirmTransaction ledger_first_down (SOLANA_RPC_URL env_one_rpc) ''paid''
       = Inl ''fetch failed''
   \<and> verifyTransaction env_one_rpc ledger_first_down ''paid''
       = Inl ''Transaction verification failed: fetch failed''
   \<and> fst service_transfer = Inr (TransferResult ''treasury-signature'' (3 / 2) wallet_A)
   \<and> map fst (snd service_transfer) = [rpcUrl (TOKEN_CONFIG env_ok)]
   \<and> ps_createSolPayment env_ok ledger_ok wallet_A 1
       = Inr (\<lparr> instructions =
                   [SystemTransfer (Wallet wallet_A)
                      (Wallet ''4DZPTePbiBvkEWPgbUM53LszBCEobGxEaFga43gQHNdz'') 1000000000],
                 recentBlockhash = ''blockhash'', feePayer = Some (Wallet wallet_A),
                 signers = [] \<rparr>, 7500)
   \<and> getLatestBlockhash ledger_ok (SOLANA_RPC_URL env_ok) = Inr ''blockhash''"
proof -
  let ?ankr = "''https://rpc.ankr.com/solana''"
  let ?kp = "KeypairPublicKey treasury_secret"
  let ?mint = "Wallet ''HThCz865FsMBh59ECT2Tyyij2WoRpfEXLJkvxjJSmnsE''"
  have eps: "SERVER_RPC_ENDPOINTS env_one_rpc = [down, ?ankr]" by code_simp
  have p1: "getLatestBlockhash ledger_first_down down = Inl ''fetch failed''" by code_simp
  have p2: "getLatestBlockhash ledger_first_down ?ankr = Inr ''blockhash''" by code_simp
  have g: "getMint ledger_first_down down (Wallet (CGT_MINT_ADDRESS env_one_rpc))
             = Inl ''fetch failed''" by code_simp
  have k: "getTreasuryKeypair (SERVER_CONFIG env_one_rpc) = Inr ?kp" by code_simp
  have w: "PublicKey wallet_A = Inr (Wallet wallet_A)" by code_simp
  have c: "onCurve ledger_first_down wallet_A" by code_simp
  have m: "PublicKey (CGT_MINT (SERVER_CONFIG env_one_rpc)) = Inr ?mint" by code_simp
  have d: "getMint ledger_first_down ?ankr ?mint = Inr 6" by code_simp
  have s: "sendTransaction ledger_first_down ?ankr tx = Inr ''treasury-signature''" for tx
    by (simp add: ledger_first_down_def down_def)
  have f: "confirmTransaction ledger_first_down ?ankr ''treasury-signature'' = Inr None"
    by code_simp
  have all: "\<forall>ep \<in> set [down, down]. \<exists>m. getLatestBlockhash ledger_first_down ep = Inl m"
    using p1 by simp
  note first = C8_secure_transfer_fails_over
    [of ledger_first_down "SERVER_RPC_ENDPOINTS env_one_rpc" ?ankr _
        "SERVER_CONFIG env_one_rpc" now_in_presale "[]" wallet_A 5 _ _ _ _ _
        down "''fetch failed''" ?ankr "''blockhash''" ?kp "Wallet wallet_A" ?mint 6
        "''treasury-signature''" "[]"]
  note none = C8_secure_transfer_fails_over
    [of ledger_first_down "[down, down]" _ "''All RPC endpoints failed''"
        "SERVER_CONFIG env_one_rpc" now_in_presale "[]" wallet_A 5]
  from first [THEN conjunct2, THEN conjunct2, THEN conjunct2, THEN conjunct2]
    p1 p2 k w c m d s f
  have t: "executeSecureCgtTransfer (SERVER_CONFIG env_one_rpc) ledger_first_down
             [down, ?ankr] now_in_presale [] wallet_A 5 =
           (TransferOk ''treasury-signature'' 5 wallet_A now_in_presale,
            [] @ [(?ankr, secure_transfer_tx ledger_first_down ?ankr ?kp (Wallet wallet_A) ?mint
                     (ATA ?mint ?kp) (ATA ?mint (Wallet wallet_A)) \<lfloor>fl (5 * Math_pow10 6)\<rfloor>)])"
    by simp
  from none [THEN conjunct2, THEN conjunct1] all
  have n1: "getSecureConnection ledger_first_down [down, down] = Inl ''All RPC endpoints failed''"
    by simp
  from none [THEN conjunct2, THEN conjunct2, THEN conjunct1] n1
  have n2: "executeSecureCgtTransfer (SERVER_CONFIG env_one_rpc) ledger_first_down [down, down]
        now_in_presale [] wallet_A 5 = (Failure ''Transfer execution failed'', [])"
    by simp
  have sel: "getSecureConnection ledger_first_down (SERVER_RPC_ENDPOINTS env_one_rpc) = Inr ?ankr"
    using p1 p2 by (simp add: eps)
  have cf: "confirmTransaction ledger_first_down (SOLANA_RPC_URL env_one_rpc) ''paid''
       = Inl ''fetch failed''" by code_simp
  from first [THEN conjunct2, THEN conjunct2, THEN conjunct2, THEN conjunct2, THEN conjunct2,
      THEN conjunct1, of env_one_rpc "''paid''"] cf
  have vt: "verifyTransaction env_one_rpc ledger_first_down ''paid''
       = Inl ''Transaction verification failed: fetch failed''"
    by simp
  have st: "transferCgtTokens (TOKEN_CONFIG env_ok) ledger_ok now_in_presale [] wallet_A (3 / 2)
            = (Inr (TransferResult ''treasury-signature'' (3 / 2) wallet_A), snd service_transfer)"
    by code_simp
  have len: "length (snd service_transfer) = 1" by code_simp
  from C8_secure_transfer_fails_over
    [THEN conjunct2, THEN conjunct2, THEN conjunct2, THEN conjunct2, THEN conjunct2,
      THEN conjunct2, THEN conjunct2, THEN mp, OF st]
  obtain lg1 tx where "snd service_transfer = lg1 @ [(rpcUrl (TOKEN_CONFIG env_ok), tx)]"
    by blast
  with len have on: "map fst (snd service_transfer) = [rpcUrl (TOKEN_CONFIG env_ok)]"
    by simp
  have sf: "fst service_transfer = Inr (TransferResult ''treasury-signature'' (3 / 2) wallet_A)"
    by code_simp
  have bp: "ps_createSolPayment env_ok ledger_ok wallet_A 1
       = Inr (\<lparr> instructions =
                   [SystemTransfer (Wallet wallet_A)
                      (Wallet ''4DZPTePbiBvkEWPgbUM53LszBCEobGxEaFga43gQHNdz'') 1000000000],
                 recentBlockhash = ''blockhash'', feePayer = Some (Wallet wallet_A),
                 signers = [] \<rparr>, 7500)"
    by code_simp
  from C8_secure_transfer_fails_over
    [THEN conjunct2, THEN conjunct2, THEN conjunct2, THEN conjunct2, THEN conjunct2,
      THEN conjunct2, THEN conjunct1, THEN mp, OF bp]
  have bh: "getLatestBlockhash ledger_ok (SOLANA_RPC_URL env_ok) = Inr ''blockhash''"
    by simp
  from eps p1 p2 g sel t n1 n2 cf vt sf on bp bh show ?thesis by simp
qed

text \<open>
  Claim C8 as stated fails for the ledger operations of the token service and of the
  payment service, which work on the one connection opened on \<^verbatim>\<open>SOLANA_RPC_URL\<close>: with
  that endpoint down and the next configured endpoint answering, verifying a
  transaction, building a payment and transferring tokens each fail with the network
  error, and nothing is tried on the other endpoint.
\<close>

theorem C8_single_connection_services_do_not_fail_over:
  "SERVER_RPC_ENDPOINTS env_one_rpc = [SOLANA_RPC_URL env_one_rpc, ''https://rpc.ankr.com/solana'']
   \<and> getLatestBlockhash ledger_first_down (SOLANA_RPC_URL env_one_rpc) = Inl ''fetch failed''
   \<and> getLatestBlockhash ledger_first_down ''https://rpc.ankr.com/solana'' = Inr ''blockhash''
   \<and> confirmTransaction ledger_first_down ''https://rpc.ankr.com/solana'' ''paid'' = Inr None
   \<and> verifyTransaction env_one_rpc ledger_first_down ''paid''
       = Inl ''Transaction verification failed: fetch failed''
   \<and> ps_createSolPayment env_one_rpc ledger_first_down wallet_A 1
       = Inl ''Failed to create SOL payment: fetch failed''
   \<and> ps_createSplTokenPayment env_one_rpc ledger_first_down wallet_A 10 ''USDT''
       = Inl ''Failed to create USDT payment: fetch failed''
   \<and> transferCgtTokens (TOKEN_CONFIG env_one_rpc) ledger_first_down now_in_presale [] wallet_A 5
       = (Inl ''Failed to transfer CGT tokens: Failed to ensure token account: fetch failed'', [])"
  by code_simp

subsection \<open>The presale window\<close>

lemma isValidSolanaAddress_iff: "isValidSolanaAddress w \<longleftrightarrow> PublicKey w = Inr (Wallet w)"
  by (auto simp: isValidSolanaAddress_def dest: PublicKey_Inr split: sum.splits)

lemma transfer_cgt_passes_guards:
  assumes "isValidSolanaAddress (req_recipientWallet req)"
    and "MIN_TRANSFER_AMOUNT cfg \<le> req_amount req" and "0 < MIN_TRANSFER_AMOUNT cfg"
    and "req_amount req \<le> MAX_TRANSFER_AMOUNT cfg"
    and "req_timestamp req \<noteq> 0" and "\<bar>now - req_timestamp req\<bar> \<le> 300000"
    and "ALLOWED_RECIPIENTS cfg = [] \<or> req_recipientWallet req \<in> set (ALLOWED_RECIPIENTS cfg)"
  shows "transfer_cgt cfg L eps now lg req =
           (\<lparr> status = 200,
              body = fst (executeSecureCgtTransfer cfg L eps now lg (req_recipientWallet req)
                            (req_amount req)) \<rparr>,
            snd (executeSecureCgtTransfer cfg L eps now lg (req_recipientWallet req)
                   (req_amount req)))"
proof -
  from assms(1) have "req_recipientWallet req \<noteq> []"
    by (rule isValidSolanaAddress_nonempty)
  moreover from assms(2,3) have "req_amount req \<noteq> 0" by auto
  ultimately show ?thesis
    using assms by (auto simp: transfer_cgt_def split: prod.splits)
qed

text \<open>
  Claim C9. For every wallet and reward amount, \<^verbatim>\<open>tokenService.transferCgtTokens\<close> fails
  with \<^verbatim>\<open>Presale is not active\<close> and broadcasts nothing whenever the current time is
  outside the presale window. \<^verbatim>\<open>POST /api/transfer-cgt\<close> performs no presale check: at
  every time and for every presale window of the deployment, a request that is present,
  well formed, in bounds, fresh and allowed is answered 200 with the transfer's success
  and the transfer is broadcast, as soon as an endpoint answers, the treasury key and the
  mint are well formed, the recipient is on the curve and the ledger accepts the
  transaction. None of these conditions reads the presale window.
\<close>

theorem C9_presale_gate_only_in_token_service:
  "(\<not> isPresaleActive (TOKEN_CONFIG e) now \<longrightarrow>
      transferCgtTokens (TOKEN_CONFIG e) L now lg w R = (Inl ''Presale is not active'', lg))
   \<and> (isValidSolanaAddress (req_recipientWallet req) \<longrightarrow> onCurve L (req_recipientWallet req) \<longrightarrow>
        1 \<le> req_amount req \<longrightarrow> req_amount req \<le> 1000000 \<longrightarrow>
        req_timestamp req \<noteq> 0 \<longrightarrow> \<bar>now - req_timestamp req\<bar> \<le> 300000 \<longrightarrow>
        (ALLOWED_RECIPIENTS (SERVER_CONFIG e) = [] \<or>
           req_recipientWallet req \<in> set (ALLOWED_RECIPIENTS (SERVER_CONFIG e))) \<longrightarrow>
        getSecureConnection L eps = Inr ep \<longrightarrow>
        getTreasuryKeypair (SERVER_CONFIG e) = Inr kp \<longrightarrow>
        PublicKey (CGT_MINT_ADDRESS e) = Inr mint \<longrightarrow>
        getMint L ep mint = Inr d \<longrightarrow>
        sendTransaction L ep
          (secure_transfer_tx L ep kp (Wallet (req_recipientWallet req)) mint (ATA mint kp)
             (ATA mint (Wallet (req_recipientWallet req)))
             \<lfloor>fl (req_amount req * Math_pow10 d)\<rfloor>) = Inr sg \<longrightarrow>
        confirmTransaction L ep sg = Inr None \<longrightarrow>
        transfer_cgt (SERVER_CONFIG e) L eps now lg req =
          (\<lparr> status = 200,
             body = TransferOk sg (req_amount req) (req_recipientWallet req) now \<rparr>,
           lg @ [(ep, secure_transfer_tx L ep kp (Wallet (req_recipientWallet req)) mint
                        (ATA mint kp) (ATA mint (Wallet (req_recipientWallet req)))
                        \<lfloor>fl (req_amount req * Math_pow10 d)\<rfloor>)]))"
proof (intro conjI impI)
  assume "\<not> isPresaleActive (TOKEN_CONFIG e) now"
  then show "transferCgtTokens (TOKEN_CONFIG e) L now lg w R = (Inl ''Presale is not active'', lg)"
    by (simp add: transferCgtTokens_def)
next
  let ?w = "req_recipientWallet req"
  assume v: "isValidSolanaAddress ?w" and c: "onCurve L ?w"
    and b: "1 \<le> req_amount req" "req_amount req \<le> 1000000"
    and t: "req_timestamp req \<noteq> 0" "\<bar>now - req_timestamp req\<bar> \<le> 300000"
    and a: "ALLOWED_RECIPIENTS (SERVER_CONFIG e) = [] \<or>
           req_recipientWallet req \<in> set (ALLOWED_RECIPIENTS (SERVER_CONFIG e))"
    and s: "getSecureConnection L eps = Inr ep"
    and k: "getTreasuryKeypair (SERVER_CONFIG e) = Inr kp"
    and m: "PublicKey (CGT_MINT_ADDRESS e) = Inr mint"
    and d: "getMint L ep mint = Inr d"
    and x: "sendTransaction L ep
          (secure_transfer_tx L ep kp (Wallet ?w) mint (ATA mint kp) (ATA mint (Wallet ?w))
             \<lfloor>fl (req_amount req * Math_pow10 d)\<rfloor>) = Inr sg"
    and f: "confirmTransaction L ep sg = Inr None"
  from v have pk: "PublicKey ?w = Inr (Wallet ?w)"
    by (simp add: isValidSolanaAddress_iff)
  from m have m': "PublicKey (CGT_MINT (SERVER_CONFIG e)) = Inr mint"
    by (simp add: SERVER_CONFIG_def)
  have ex: "executeSecureCgtTransfer (SERVER_CONFIG e) L eps now lg ?w (req_amount req) =
          (TransferOk sg (req_amount req) ?w now,
           lg @ [(ep, secure_transfer_tx L ep kp (Wallet ?w) mint (ATA mint kp)
                        (ATA mint (Wallet ?w)) \<lfloor>fl (req_amount req * Math_pow10 d)\<rfloor>)])"
    by (rule executeSecureCgtTransfer_on [OF s k pk c m' d x f])
  have "transfer_cgt (SERVER_CONFIG e) L eps now lg req =
           (\<lparr> status = 200,
              body = fst (executeSecureCgtTransfer (SERVER_CONFIG e) L eps now lg ?w
                            (req_amount req)) \<rparr>,
            snd (executeSecureCgtTransfer (SERVER_CONFIG e) L eps now lg ?w (req_amount req)))"
  proof (rule transfer_cgt_passes_guards)
    show "isValidSolanaAddress ?w" by (rule v)
    show "MIN_TRANSFER_AMOUNT (SERVER_CONFIG e) \<le> req_amount req"
      using b by (simp add: SERVER_CONFIG_def)
    show "0 < MIN_TRANSFER_AMOUNT (SERVER_CONFIG e)" by (simp add: SERVER_CONFIG_def)
    show "req_amount req \<le> MAX_TRANSFER_AMOUNT (SERVER_CONFIG e)"
      using b by (simp add: SERVER_CONFIG_def)
    show "req_timestamp req \<noteq> 0" by (rule t)
    show "\<bar>now - req_timestamp req\<bar> \<le> 300000" by (rule t)
    show "ALLOWED_RECIPIENTS (SERVER_CONFIG e) = [] \<or> ?w \<in> set (ALLOWED_RECIPIENTS (SERVER_CONFIG e))"
      by (rule a)
  qed
  then show "transfer_cgt (SERVER_CONFIG e) L eps now lg req =
          (\<lparr> status = 200, body = TransferOk sg (req_amount req) ?w now \<rparr>,
           lg @ [(ep, secure_transfer_tx L ep kp (Wallet ?w) mint (ATA mint kp)
                        (ATA mint (Wallet ?w)) \<lfloor>fl (req_amount req * Math_pow10 d)\<rfloor>)])"
    by (simp add: ex)
qed

text \<open>After the presale has ended, on one deployment and one ledger: the token service
  refuses to transfer 5 reward units to \<open>wallet_A\<close>, the direct route transfers them
  (5000000 base units of the 6-decimals mint).\<close>

theorem C9_presale_gate_only_in_token_service_witness:
  "\<not> isPresaleActive (TOKEN_CONFIG env_ok) now_after_presale
   \<and> transferCgtTokens (TOKEN_CONFIG env_ok) ledger_ok now_after_presale [] wallet_A 5
       = (Inl ''Presale is not active'', [])
   \<and> fst (transfer_cgt (SERVER_CONFIG env_ok) ledger_ok (SERVER_RPC_ENDPOINTS env_ok)
            now_after_presale [] late_request)
       = \<lparr> status = 200,
           body = TransferOk ''treasury-signature'' 5 wallet_A now_after_presale \<rparr>
   \<and> base_units_sent (snd (transfer_cgt (SERVER_CONFIG env_ok) ledger_ok
         (SERVER_RPC_ENDPOINTS env_ok) now_after_presale [] late_request)) = [Some 5000000]"
proof -
  let ?ep = "''https://api.mainnet-beta.solana.com''"
  let ?kp = "KeypairPublicKey treasury_secret"
  let ?mint = "Wallet ''HThCz865FsMBh59ECT2Tyyij2WoRpfEXLJkvxjJSmnsE''"
  have h0: "\<not> isPresaleActive (TOKEN_CONFIG env_ok) now_after_presale" by code_simp
  have h1: "isValidSolanaAddress (req_recipientWallet late_request)" by code_simp
  have h2: "onCurve ledger_ok (req_recipientWallet late_request)" by code_simp
  have h3: "1 \<le> req_amount late_request" "req_amount late_request \<le> 1000000"
    by (simp_all add: late_request_def)
  have h4: "req_timestamp late_request \<noteq> 0"
    "\<bar>now_after_presale - req_timestamp late_request\<bar> \<le> 300000"
    by (simp_all add: late_request_def now_after_presale_def)
  have h5: "ALLOWED_RECIPIENTS (SERVER_CONFIG env_ok) = [] \<or>
      req_recipientWallet late_request \<in> set (ALLOWED_RECIPIENTS (SERVER_CONFIG env_ok))"
    by (simp add: SERVER_CONFIG_def env_ok_def)
  have h6: "getSecureConnection ledger_ok (SERVER_RPC_ENDPOINTS env_ok) = Inr ?ep" by code_simp
  have h7: "getTreasuryKeypair (SERVER_CONFIG env_ok) = Inr ?kp" by code_simp
  have h8: "PublicKey (CGT_MINT_ADDRESS env_ok) = Inr ?mint" by code_simp
  have h9: "getMint ledger_ok ?ep ?mint = Inr 6" by code_simp
  have h10: "sendTransaction ledger_ok ?ep tx = Inr ''treasury-signature''" for tx
    by (simp add: ledger_ok_def)
  have h11: "confirmTransaction ledger_ok ?ep ''treasury-signature'' = Inr None" by code_simp
  have r: "req_recipientWallet late_request = wallet_A" "req_amount late_request = 5"
    by (simp_all add: late_request_def)
  have val: "u64 \<lfloor>fl (5 * Math_pow10 6)\<rfloor> = Some 5000000" by code_simp
  note inst = C9_presale_gate_only_in_token_service
    [of env_ok now_after_presale ledger_ok "[]" wallet_A 5 late_request
        "SERVER_RPC_ENDPOINTS env_ok" ?ep ?kp ?mint 6 "''treasury-signature''"]
  from inst [THEN conjunct1] h0
  have a: "transferCgtTokens (TOKEN_CONFIG env_ok) ledger_ok now_after_presale [] wallet_A 5
       = (Inl ''Presale is not active'', [])"
    by simp
  from inst [THEN conjunct2] h1 h2 h3 h4 h5 h6 h7 h8 h9 h10 h11
  have b: "transfer_cgt (SERVER_CONFIG env_ok) ledger_ok (SERVER_RPC_ENDPOINTS env_ok)
             now_after_presale [] late_request =
          (\<lparr> status = 200,
             body = TransferOk ''treasury-signature'' (req_amount late_request)
                      (req_recipientWallet late_request) now_after_presale \<rparr>,
           [] @ [(?ep, secure_transfer_tx ledger_ok ?ep ?kp (Wallet (req_recipientWallet late_request))
                        ?mint (ATA ?mint ?kp)
                        (ATA ?mint (Wallet (req_recipientWallet late_request)))
                        \<lfloor>fl (req_amount late_request * Math_pow10 6)\<rfloor>)])"
    by simp
  from h0 a b val show ?thesis by (simp add: r)
qed

subsection \<open>Balances\<close>

text \<open>
  Claim C10, as amended. For every well-formed wallet address that is a point of the
  curve and whose associated reward-token account does not exist on the ledger,
  \<^verbatim>\<open>getCgtBalance\<close> returns 0 and \<^verbatim>\<open>GET /api/balance/:wallet\<close> answers
  \<^verbatim>\<open>{balance: 0}\<close>, provided the configured mint address is well formed. An error is
  raised only when the wallet address is malformed, or is off the curve, or the
  configured mint address is malformed; and a malformed wallet address always raises
  one.
\<close>

theorem C10_balance_zero_without_token_account:
  "(isValidSolanaAddress w \<longrightarrow> onCurve L w \<longrightarrow> isValidSolanaAddress (CGT_MINT cfg) \<longrightarrow>
      getAccount L (rpcUrl cfg) (ATA (Wallet (CGT_MINT cfg)) (Wallet w)) = Inl m \<longrightarrow>
      getCgtBalance cfg L w = Inr 0 \<and>
      balance_route cfg L w = \<lparr> status = 200, body = Balance 0 \<rparr>)
   \<and> (getCgtBalance cfg L w = Inl err \<longrightarrow>
        \<not> isValidSolanaAddress w \<or> \<not> onCurve L w \<or> \<not> isValidSolanaAddress (CGT_MINT cfg))
   \<and> (\<not> isValidSolanaAddress w \<longrightarrow>
        (\<exists>msg. getCgtBalance cfg L w = Inl (''Failed to get CGT balance: '' @ msg)))"
proof (intro conjI impI)
  assume v: "isValidSolanaAddress w" and c: "onCurve L w"
    and mv: "isValidSolanaAddress (CGT_MINT cfg)"
    and g: "getAccount L (rpcUrl cfg) (ATA (Wallet (CGT_MINT cfg)) (Wallet w)) = Inl m"
  from v have pk: "PublicKey w = Inr (Wallet w)" and ne: "w \<noteq> []"
    by (simp_all add: isValidSolanaAddress_iff isValidSolanaAddress_nonempty)
  from mv have pm: "PublicKey (CGT_MINT cfg) = Inr (Wallet (CGT_MINT cfg))"
    by (simp add: isValidSolanaAddress_iff)
  from pk pm c g show b: "getCgtBalance cfg L w = Inr 0"
    by (simp add: getCgtBalance_def getAssociatedTokenAddress_def)
  from b ne show "balance_route cfg L w = \<lparr> status = 200, body = Balance 0 \<rparr>"
    by (simp add: balance_route_def)
next
  assume "getCgtBalance cfg L w = Inl err"
  then show "\<not> isValidSolanaAddress w \<or> \<not> onCurve L w \<or> \<not> isValidSolanaAddress (CGT_MINT cfg)"
    by (auto simp: getCgtBalance_def getAssociatedTokenAddress_def isValidSolanaAddress_def
        dest!: PublicKey_Inr split: sum.splits if_splits)
next
  assume "\<not> isValidSolanaAddress w"
  then show "\<exists>msg. getCgtBalance cfg L w = Inl (''Failed to get CGT balance: '' @ msg)"
    by (auto simp: getCgtBalance_def isValidSolanaAddress_def split: sum.splits)
qed

text \<open>\<open>wallet_A\<close> is well formed and on the curve, and nobody has a token account: its
  balance is 0. The text \<^verbatim>\<open>not-an-address\<close> is no address, and asking for its balance
  fails.\<close>

theorem C10_balance_zero_without_token_account_witness:
  "isValidSolanaAddress wallet_A \<and> onCurve ledger_no_account wallet_A
   \<and> isValidSolanaAddress (CGT_MINT (TOKEN_CONFIG env_ok))
   \<and> getAccount ledger_no_account (rpcUrl (TOKEN_CONFIG env_ok))
        (ATA (Wallet (CGT_MINT (TOKEN_CONFIG env_ok))) (Wallet wallet_A))
       = Inl ''TokenAccountNotFoundError''
   \<and> getCgtBalance (TOKEN_CONFIG env_ok) ledger_no_account wallet_A = Inr 0
   \<and> balance_route (TOKEN_CONFIG env_ok) ledger_no_account wallet_A
       = \<lparr> status = 200, body = Balance 0 \<rparr>
   \<and> \<not> isValidSolanaAddress ''not-an-address''
   \<and> getCgtBalance (TOKEN_CONFIG env_ok) ledger_no_account ''not-an-address''
       = Inl ''Failed to get CGT balance: Non-base58 character''
   \<and> balance_route (TOKEN_CONFIG env_ok) ledger_no_account ''not-an-address''
       = \<lparr> status = 500, body = ErrorBody ''Failed to get balance'' \<rparr>"
proof -
  have h1: "isValidSolanaAddress wallet_A" by code_simp
  have h2: "onCurve ledger_no_account wallet_A" by code_simp
  have h3: "isValidSolanaAddress (CGT_MINT (TOKEN_CONFIG env_ok))" by code_simp
  have h4: "getAccount ledger_no_account (rpcUrl (TOKEN_CONFIG env_ok))
        (ATA (Wallet (CGT_MINT (TOKEN_CONFIG env_ok))) (Wallet wallet_A))
       = Inl ''TokenAccountNotFoundError''"
    by (simp add: ledger_no_account_def)
  have h5: "\<not> isValidSolanaAddress ''not-an-address''" by code_simp
  have h6: "getCgtBalance (TOKEN_CONFIG env_ok) ledger_no_account ''not-an-address''
       = Inl ''Failed to get CGT balance: Non-base58 character''" by code_simp
  have h7: "balance_route (TOKEN_CONFIG env_ok) ledger_no_account ''not-an-address''
       = \<lparr> status = 500, body = ErrorBody ''Failed to get balance'' \<rparr>" by code_simp
  from C10_balance_zero_without_token_account
    [of wallet_A ledger_no_account "TOKEN_CONFIG env_ok" "''TokenAccountNotFoundError''",
      THEN conjunct1] h1 h2 h3 h4
  have "getCgtBalance (TOKEN_CONFIG env_ok) ledger_no_account wallet_A = Inr 0 \<and>
      balance_route (TOKEN_CONFIG env_ok) ledger_no_account wallet_A
        = \<lparr> status = 200, body = Balance 0 \<rparr>"
    by blast
  with h1 h2 h3 h4 h5 h6 h7 show ?thesis by simp
qed

text \<open>
  Claim C10 as stated fails for well-formed wallet addresses without a token account.
  \<open>wallet_off\<close> is base58 text of 32 bytes that is not a point of the curve: deriving
  its associated account throws, and the balance is an error. And on a deployment whose
  mint address is \<^verbatim>\<open>abc\<close>, which passes start-up, the balance of \<open>wallet_A\<close> is an
  error too.
\<close>

theorem C10_error_for_well_formed_address:
  "isValidSolanaAddress wallet_off
   \<and> getAccount ledger_no_account (rpcUrl (TOKEN_CONFIG env_ok))
        (ATA (Wallet (CGT_MINT (TOKEN_CONFIG env_ok))) (Wallet wallet_off))
       = Inl ''TokenAccountNotFoundError''
   \<and> getCgtBalance (TOKEN_CONFIG env_ok) ledger_no_account wallet_off
       = Inl ''Failed to get CGT balance: ''
   \<and> balance_route (TOKEN_CONFIG env_ok) ledger_no_account wallet_off
       = \<lparr> status = 500, body = ErrorBody ''Failed to get balance'' \<rparr>
   \<and> startup env_short_mint = Listening ''127.0.0.1'' 3001
   \<and> isValidSolanaAddress wallet_A
   \<and> getCgtBalance (TOKEN_CONFIG env_short_mint) ledger_no_account wallet_A
       = Inl ''Failed to get CGT balance: Invalid public key input''
   \<and> balance_route (TOKEN_CONFIG env_short_mint) ledger_no_account wallet_A
       = \<lparr> status = 500, body = ErrorBody ''Failed to get balance'' \<rparr>"
  by code_simp

end
